theory Spec2Isabelle
  imports Main "HOL-Library.Word" "HOL-Library.Sublist"
begin

section \<open>Positions, ranges and expressions\<close>

text \<open>
  The parser's \<^verbatim>\<open>Position{Index, Line, Col}\<close>, \<^verbatim>\<open>Range{From, To}\<close> and
  \<^verbatim>\<open>Expression{Value, Range}\<close>. \<^verbatim>\<open>Line\<close> and \<^verbatim>\<open>Col\<close> are \<^verbatim>\<open>uint32\<close>; the byte
  index is never used in arithmetic that could wrap (an output of \<open>2^63\<close> bytes does not fit
  in memory), so it is a natural number.
\<close>

record Position =
  Index :: nat
  Line :: "32 word"
  Col :: "32 word"

record Range =
  From :: Position
  To :: Position

record Expression =
  Value :: string
  ExpressionRange :: Range

definition zeroPosition :: Position where
  "zeroPosition = \<lparr>Index = 0, Line = 0, Col = 0\<rparr>"

definition zeroRange :: Range where
  "zeroRange = \<lparr>From = zeroPosition, To = zeroPosition\<rparr>"

text \<open>
  Errors the Go code returns or panics with. The output sink is an in-memory buffer whose
  writes always succeed, so a write never returns an error and the only failures are the
  structural ones below.
\<close>

datatype error =
    NilPointerDereference
  | IndexOutOfRange
  | GoExpressionIsNil
  | TemplateIsNil
  | CSSTemplateIsNil
  | ScriptTemplateIsNil
  | UnknownNodeType
  | UnknownCSSPropertyType
  | UnhandledType
  | UnknownScriptContent

definition bindE :: "error + 'a \<Rightarrow> ('a \<Rightarrow> error + 'b) \<Rightarrow> error + 'b" where
  "bindE m f = (case m of Inl e \<Rightarrow> Inl e | Inr x \<Rightarrow> f x)"

lemma bindE_cong [fundef_cong]:
  "m = m' \<Longrightarrow> (\<And>x. m' = Inr x \<Longrightarrow> f x = f' x) \<Longrightarrow> bindE m f = bindE m' f'"
  by (simp add: bindE_def split: sum.splits)

lemma bindE_simps [simp]:
  "bindE (Inl e) f = Inl e"
  "bindE (Inr x) f = f x"
  by (simp_all add: bindE_def)

definition tab :: char where "tab = CHR 0x09"
definition newline :: char where "newline = CHR 0x0A"
definition dquote :: char where "dquote = CHR 0x22"
definition squote :: char where "squote = CHR 0x27"
definition backslash :: char where "backslash = CHR 0x5C"
definition backtick :: char where "backtick = CHR 0x60"

section \<open>The template syntax tree\<close>

text \<open>
  The parser's node types, with the fields the generator reads. \<^verbatim>\<open>TrailingSpace\<close> is
  the parser's marker none / horizontal / vertical. Interfaces are closed sums;
  \<open>OtherNode\<close>, \<open>OtherCSSProperty\<close> and \<open>OtherTemplateFileNode\<close> stand for a value of a type
  the generator's type switches do not list. A pointer the generator checks against
  \<^verbatim>\<open>nil\<close> is an \<open>option\<close>.
\<close>

datatype TrailingSpace = SpaceNone | SpaceHorizontal | SpaceVertical

datatype AttributeKey =
    ConstantAttributeKey string
  | ExpressionAttributeKey Expression

datatype Attribute =
    BoolConstantAttribute AttributeKey
  | ConstantAttribute AttributeKey string bool
  | BoolExpressionAttribute AttributeKey Expression
  | ExpressionAttribute AttributeKey Expression
  | SpreadAttributes Expression
  | ConditionalAttribute Expression "Attribute list" "Attribute list"

record GoCode =
  GoCodeExpression :: Expression
  GoCodeTrailingSpace :: TrailingSpace

record ScriptContents =
  ScriptValue :: "string option"
  ScriptGoCode :: "GoCode option"
  InsideStringLiteral :: bool

datatype Node =
    DocType string
  | Element string "Attribute list" "Node list"
  | HTMLComment string
  | ChildrenExpression
  | RawElement string "Attribute list" string
  | ScriptElement "Attribute list" "ScriptContents list"
  | ForExpression Expression "Node list"
  | CallTemplateExpression Expression
  | TemplElementExpression Expression "Node list"
  | IfExpression Expression "Node list" "(Expression \<times> Node list) list" "Node list"
  | SwitchExpression Expression "(Expression \<times> Node list) list"
  | StringExpression Expression
  | GoCodeNode Expression
  | Whitespace string
  | Text string
  | GoComment
  | OtherNode

datatype CSSProperty =
    ConstantCSSProperty string string
  | ExpressionCSSProperty string Expression
  | OtherCSSProperty

text \<open>
  \<open>HTMLTemplate range expression children\<close>, \<open>CSSTemplate range name expression properties\<close>,
  \<open>ScriptTemplate range name parameters value\<close>.
\<close>

datatype TemplateFileGoExpression = TemplateFileGoExpression Expression
datatype HTMLTemplate = HTMLTemplate Range Expression "Node list"
datatype CSSTemplate = CSSTemplate Range string Expression "CSSProperty list"
datatype ScriptTemplate = ScriptTemplate Range Expression Expression string

datatype TemplateFileNode =
    GoExpressionNode "TemplateFileGoExpression option"
  | HTMLTemplateNode "HTMLTemplate option"
  | CSSTemplateNode "CSSTemplate option"
  | ScriptTemplateNode "ScriptTemplate option"
  | OtherTemplateFileNode

record TemplateFile =
  Header :: "TemplateFileGoExpression option list"
  Package :: Expression
  Nodes :: "TemplateFileNode list"

text \<open>
  What the generator uses and this file does not hold, as parameters: the parser's
  methods on nodes, keys and properties (\<^verbatim>\<open>IsVoidElement\<close>, \<^verbatim>\<open>IsBlockElement\<close>,
  \<^verbatim>\<open>Trailing\<close> of the \<^verbatim>\<open>WhitespaceTrailer\<close> interface, with \<open>None\<close> for a node whose
  type does not implement it, \<^verbatim>\<open>AttributeKey.String\<close>, \<^verbatim>\<open>ConstantCSSProperty.String(true)\<close>,
  \<^verbatim>\<open>CopyAttributes\<close>), Go's Unicode table \<^verbatim>\<open>unicode.IsPrint\<close> for code points from
  \<open>0x80\<close> on, the hexadecimal SHA-256 digest of a string, \<^verbatim>\<open>filepath.IsAbs\<close> and
  \<^verbatim>\<open>filepath.Split\<close> of the host system, and the text of the statement
  the range writer emits for a string literal at an indent level.
\<close>

record externs =
  IsVoidElement :: "Node \<Rightarrow> bool"
  IsBlockElement :: "Node \<Rightarrow> bool"
  Trailing :: "Node \<Rightarrow> TrailingSpace option"
  KeyString :: "AttributeKey \<Rightarrow> string"
  CSSPropertyString :: "CSSProperty \<Rightarrow> string"
  CopyAttributes :: "Attribute list \<Rightarrow> Attribute list"
  IsPrint :: "nat \<Rightarrow> bool"
  SHA256Hex :: "string \<Rightarrow> string"
  IsAbs :: "string \<Rightarrow> bool"
  Split :: "string \<Rightarrow> string \<times> string"
  literalStatement :: "nat \<Rightarrow> string \<Rightarrow> string"

section \<open>Go library functions the generator calls\<close>

text \<open>\<^verbatim>\<open>strings.Split\<close> on a one-byte separator, \<^verbatim>\<open>strings.Join\<close>.\<close>

fun splitOn :: "char \<Rightarrow> string \<Rightarrow> string list" where
  "splitOn sep [] = [[]]"
| "splitOn sep (c # cs) =
     (if c = sep then [] # splitOn sep cs
      else (case splitOn sep cs of [] \<Rightarrow> [[c]] | x # xs \<Rightarrow> (c # x) # xs))"

fun join :: "string list \<Rightarrow> string \<Rightarrow> string" where
  "join [] sep = []"
| "join [x] sep = x"
| "join (x # y # ys) sep = x @ sep @ join (y # ys) sep"

text \<open>
  \<^verbatim>\<open>strings.TrimSpace\<close> and \<^verbatim>\<open>strings.TrimLeftFunc(s, unicode.IsSpace)\<close> on UTF-8 bytes:
  \<open>spaceRunes\<close> are the encodings of the code points for which \<^verbatim>\<open>unicode.IsSpace\<close> holds
  (tab, line feed, vertical tab, form feed, carriage return, space, U+0085, U+00A0,
  U+1680, U+2000 to U+200A, U+2028, U+2029, U+202F, U+205F, U+3000).
\<close>

definition spaceRunes :: "string list" where
  "spaceRunes =
    [[CHR 0x09], [CHR 0x0A], [CHR 0x0B], [CHR 0x0C], [CHR 0x0D], [CHR 0x20],
     [CHR 0xC2, CHR 0x85], [CHR 0xC2, CHR 0xA0], [CHR 0xE1, CHR 0x9A, CHR 0x80],
     [CHR 0xE2, CHR 0x80, CHR 0x80], [CHR 0xE2, CHR 0x80, CHR 0x81],
     [CHR 0xE2, CHR 0x80, CHR 0x82], [CHR 0xE2, CHR 0x80, CHR 0x83],
     [CHR 0xE2, CHR 0x80, CHR 0x84], [CHR 0xE2, CHR 0x80, CHR 0x85],
     [CHR 0xE2, CHR 0x80, CHR 0x86], [CHR 0xE2, CHR 0x80, CHR 0x87],
     [CHR 0xE2, CHR 0x80, CHR 0x88], [CHR 0xE2, CHR 0x80, CHR 0x89],
     [CHR 0xE2, CHR 0x80, CHR 0x8A], [CHR 0xE2, CHR 0x80, CHR 0xA8],
     [CHR 0xE2, CHR 0x80, CHR 0xA9], [CHR 0xE2, CHR 0x80, CHR 0xAF],
     [CHR 0xE2, CHR 0x81, CHR 0x9F], [CHR 0xE3, CHR 0x80, CHR 0x80]]"

definition spaceWidth :: "string list \<Rightarrow> string \<Rightarrow> nat" where
  "spaceWidth pats s = (case find (\<lambda>p. prefix p s) pats of None \<Rightarrow> 0 | Some p \<Rightarrow> length p)"

fun trimLeftWith :: "string list \<Rightarrow> string \<Rightarrow> string" where
  "trimLeftWith pats [] = []"
| "trimLeftWith pats (c # cs) =
     (let k = spaceWidth pats (c # cs) in
      if k = 0 then c # cs else trimLeftWith pats (drop (k - 1) cs))"

definition TrimLeftSpace :: "string \<Rightarrow> string" where
  "TrimLeftSpace s = trimLeftWith spaceRunes s"

definition TrimRightSpace :: "string \<Rightarrow> string" where
  "TrimRightSpace s = rev (trimLeftWith (map rev spaceRunes) (rev s))"

definition TrimSpace :: "string \<Rightarrow> string" where
  "TrimSpace s = TrimRightSpace (TrimLeftSpace s)"

text \<open>\<^verbatim>\<open>html.EscapeString\<close>.\<close>

fun htmlEscapeString :: "string \<Rightarrow> string" where
  "htmlEscapeString [] = []"
| "htmlEscapeString (c # cs) =
     (if c = CHR ''&'' then ''&amp;''
      else if c = squote then ''&#39;''
      else if c = CHR ''<'' then ''&lt;''
      else if c = CHR ''>'' then ''&gt;''
      else if c = dquote then ''&#34;''
      else [c]) @ htmlEscapeString cs"

text \<open>\<^verbatim>\<open>strconv.Itoa\<close>.\<close>

definition digitChar :: "nat \<Rightarrow> char" where
  "digitChar d = char_of (48 + d)"

fun decimal :: "nat \<Rightarrow> string" where
  "decimal n = (if n < 10 then [digitChar n] else decimal (n div 10) @ [digitChar (n mod 10)])"

declare decimal.simps [simp del]

definition Itoa :: "int \<Rightarrow> string" where
  "Itoa i = (if i < 0 then CHR ''-'' # decimal (nat (- i)) else decimal (nat i))"

text \<open>
  \<^verbatim>\<open>strconv.Quote\<close>: the string is read rune by rune (\<^verbatim>\<open>utf8.DecodeRuneInString\<close>, which
  returns \<^verbatim>\<open>RuneError\<close> with width 1 at an invalid byte); an invalid byte becomes
  \<^verbatim>\<open>\xhh\<close>, the quote and the backslash get a backslash, a printable rune is copied, the
  control characters with a short escape get it, and the rest become \<^verbatim>\<open>\xhh\<close>,
  \<^verbatim>\<open>\uhhhh\<close> or \<^verbatim>\<open>\Uhhhhhhhh\<close>.
\<close>

definition lowerhex :: "nat \<Rightarrow> char" where
  "lowerhex n = ''0123456789abcdef'' ! (n mod 16)"

definition hexDigits :: "nat \<Rightarrow> nat \<Rightarrow> string" where
  "hexDigits k r = map (\<lambda>i. lowerhex (r div 16 ^ i)) (rev [0..<k])"

definition byteAt :: "string \<Rightarrow> nat \<Rightarrow> nat" where
  "byteAt s i = (if i < length s then of_char (s ! i) else 0)"

definition RuneError :: nat where
  "RuneError = 0xFFFD"

definition DecodeRuneInString :: "string \<Rightarrow> nat \<times> nat" where
  "DecodeRuneInString s =
    (let n = length s; b0 = byteAt s 0; b1 = byteAt s 1; b2 = byteAt s 2; b3 = byteAt s 3;
         size = (if 0xC2 \<le> b0 \<and> b0 \<le> 0xDF then 2
                 else if 0xE0 \<le> b0 \<and> b0 \<le> 0xEF then 3
                 else if 0xF0 \<le> b0 \<and> b0 \<le> 0xF4 then 4 else 0);
         lo = (if b0 = 0xE0 then 0xA0 else if b0 = 0xF0 then 0x90 else 0x80);
         hi = (if b0 = 0xED then 0x9F else if b0 = 0xF4 then 0x8F else 0xBF)
     in if n < 1 then (RuneError, 0)
        else if b0 < 0x80 then (b0, 1)
        else if size = 0 \<or> n < size then (RuneError, 1)
        else if b1 < lo \<or> hi < b1 then (RuneError, 1)
        else if size = 2 then ((b0 mod 32) * 64 + b1 mod 64, 2)
        else if b2 < 0x80 \<or> 0xBF < b2 then (RuneError, 1)
        else if size = 3 then ((b0 mod 16) * 4096 + (b1 mod 64) * 64 + b2 mod 64, 3)
        else if b3 < 0x80 \<or> 0xBF < b3 then (RuneError, 1)
        else ((b0 mod 8) * 262144 + (b1 mod 64) * 4096 + (b2 mod 64) * 64 + b3 mod 64, 4))"

definition appendEscapedRune :: "externs \<Rightarrow> nat \<Rightarrow> string \<Rightarrow> string" where
  "appendEscapedRune X r bytes =
    (if r = of_char dquote \<or> r = of_char backslash then [backslash, char_of r]
     else if (if r < 0x80 then 0x20 \<le> r \<and> r < 0x7F else IsPrint X r) then bytes
     else if r = 0x07 then [backslash, CHR ''a'']
     else if r = 0x08 then [backslash, CHR ''b'']
     else if r = 0x0C then [backslash, CHR ''f'']
     else if r = 0x0A then [backslash, CHR ''n'']
     else if r = 0x0D then [backslash, CHR ''r'']
     else if r = 0x09 then [backslash, CHR ''t'']
     else if r = 0x0B then [backslash, CHR ''v'']
     else if r < 0x20 \<or> r = 0x7F then [backslash, CHR ''x''] @ hexDigits 2 r
     else if r < 0x10000 then [backslash, CHR ''u''] @ hexDigits 4 r
     else [backslash, CHR ''U''] @ hexDigits 8 r)"

fun quoteBody :: "externs \<Rightarrow> string \<Rightarrow> string" where
  "quoteBody X [] = []"
| "quoteBody X (c # cs) =
     (case DecodeRuneInString (c # cs) of (r, width) \<Rightarrow>
        (if width = 1 \<and> r = RuneError
         then [backslash, CHR ''x''] @ hexDigits 2 (of_char c)
         else appendEscapedRune X r (take width (c # cs)))
        @ quoteBody X (drop (width - 1) cs))"

definition Quote :: "externs \<Rightarrow> string \<Rightarrow> string" where
  "Quote X s = [dquote] @ quoteBody X s @ [dquote]"

definition escapeQuotes :: "externs \<Rightarrow> string \<Rightarrow> string" where
  "escapeQuotes X s = (let quoted = Quote X s in take (length quoted - 1 - 1) (drop 1 quoted))"

definition createGoString :: "string \<Rightarrow> string" where
  "createGoString s =
     [backtick]
     @ join (splitOn backtick s)
         ([backtick] @ '' + '' @ [dquote, backtick, dquote] @ '' + '' @ [backtick])
     @ [backtick]"

text \<open>The printable ASCII characters, space to tilde.\<close>

definition printableASCII :: "char \<Rightarrow> bool" where
  "printableASCII c \<longleftrightarrow> (0x20 :: nat) \<le> of_char c \<and> of_char c < (0x7F :: nat)"

section \<open>Source map, generator output and change detection\<close>

text \<open>
  Modelled from the spec: \<^verbatim>\<open>parser.SourceMap\<close> with \<^verbatim>\<open>NewSourceMap\<close>, \<^verbatim>\<open>Add\<close> and
  \<^verbatim>\<open>AddSymbolRange\<close> is not in the sources. The spec: two vectors of
  \<^verbatim>\<open>(source range, target range)\<close> pairs in insertion order; both operations append.
  The element type of \<^verbatim>\<open>Expressions\<close> is left open for \<^verbatim>\<open>HasGoChanged\<close>, which only
  compares elements.
\<close>

record 'e SourceMap =
  Expressions :: "'e list"
  SymbolRanges :: "(Range \<times> Range) list"

definition NewSourceMap :: "'e SourceMap" where
  "NewSourceMap = \<lparr>Expressions = [], SymbolRanges = []\<rparr>"

definition Add ::
  "Expression \<Rightarrow> Range \<Rightarrow> (Range \<times> Range) SourceMap \<Rightarrow> (Range \<times> Range) SourceMap" where
  "Add src tgt sm = sm\<lparr>Expressions := Expressions sm @ [(ExpressionRange src, tgt)]\<rparr>"

definition AddSymbolRange ::
  "Range \<Rightarrow> Range \<Rightarrow> (Range \<times> Range) SourceMap \<Rightarrow> (Range \<times> Range) SourceMap" where
  "AddSymbolRange src tgt sm = sm\<lparr>SymbolRanges := SymbolRanges sm @ [(src, tgt)]\<rparr>"

record GeneratorOptions =
  Version :: string
  FileName :: string
  SkipCodeGeneratedComment :: bool
  GeneratedDate :: string

text \<open>\<^verbatim>\<open>GeneratorOutput.SourceMap\<close> is a pointer: \<open>None\<close> is \<^verbatim>\<open>nil\<close>.\<close>

record 'e GeneratorOutput =
  Options :: GeneratorOptions
  SourceMap :: "'e SourceMap option"
  Literals :: "string list"

text \<open>
  The loop \<^verbatim>\<open>for i, prev := range previous.SourceMap.Expressions\<close> of \<^verbatim>\<open>HasGoChanged\<close>,
  from index \<open>i\<close> on; reading \<^verbatim>\<open>updated.SourceMap.Expressions[i]\<close> out of range panics.
\<close>

fun expressionsLoop :: "nat \<Rightarrow> 'e list \<Rightarrow> 'e list \<Rightarrow> error + bool" where
  "expressionsLoop i [] upd = Inr False"
| "expressionsLoop i (prev # rest) upd =
     (if length upd \<le> i then Inl IndexOutOfRange
      else if prev \<noteq> upd ! i then Inr True
      else expressionsLoop (Suc i) rest upd)"

definition HasGoChanged :: "'e GeneratorOutput \<Rightarrow> 'e GeneratorOutput \<Rightarrow> error + bool" where
  "HasGoChanged previous updated =
    (if Version (Options previous) \<noteq> Version (Options updated) then Inr True
     else if FileName (Options previous) \<noteq> FileName (Options updated) then Inr True
     else if SkipCodeGeneratedComment (Options previous)
               \<noteq> SkipCodeGeneratedComment (Options updated) then Inr True
     else if length (Literals previous) \<noteq> length (Literals updated) then Inr True
     else (case SourceMap previous of
             None \<Rightarrow> Inl NilPointerDereference
           | Some pm \<Rightarrow>
               (case SourceMap updated of
                  None \<Rightarrow> Inl NilPointerDereference
                | Some um \<Rightarrow>
                    if length (Expressions pm) \<noteq> length (Expressions um) then Inr True
                    else expressionsLoop 0 (Expressions pm) (Expressions um))))"

section \<open>Range writer\<close>

text \<open>
  Modelled from the spec: the \<^verbatim>\<open>RangeWriter\<close> (\<^verbatim>\<open>NewRangeWriter\<close>, \<^verbatim>\<open>Write\<close>,
  \<^verbatim>\<open>WriteIndent\<close>, \<^verbatim>\<open>WriteStringLiteral\<close>, \<^verbatim>\<open>Literals\<close>) is not in the sources. The spec:
  \<^verbatim>\<open>write(s)\<close> appends \<^verbatim>\<open>s\<close>, advances the cursor counting newlines and columns and
  returns the range just written, without recording a literal; \<^verbatim>\<open>write_indent(level, s)\<close>
  prepends \<^verbatim>\<open>level\<close> tab characters and calls \<^verbatim>\<open>write\<close>, the range covering indentation
  and text; \<^verbatim>\<open>write_string_literal(level, s)\<close> emits the statement that writes \<^verbatim>\<open>s\<close> to
  the render buffer and appends \<^verbatim>\<open>s\<close> to the literals. \<open>Sink\<close> is the text written so far.
\<close>

record RangeWriter =
  Current :: Position
  Sink :: string
  Literals :: "string list"

definition NewRangeWriter :: RangeWriter where
  "NewRangeWriter = \<lparr>Current = zeroPosition, Sink = [], Literals = []\<rparr>"

fun advance :: "Position \<Rightarrow> string \<Rightarrow> Position" where
  "advance p [] = p"
| "advance p (c # cs) =
     advance (if c = newline
              then \<lparr>Index = Index p + 1, Line = Line p + 1, Col = 0\<rparr>
              else \<lparr>Index = Index p + 1, Line = Line p, Col = Col p + 1\<rparr>) cs"

definition Write :: "string \<Rightarrow> RangeWriter \<Rightarrow> Range \<times> RangeWriter" where
  "Write s rw =
    (let to = advance (Current rw) s
     in (\<lparr>From = Current rw, To = to\<rparr>, rw\<lparr>Current := to, Sink := Sink rw @ s\<rparr>))"

definition WriteIndent :: "nat \<Rightarrow> string \<Rightarrow> RangeWriter \<Rightarrow> Range \<times> RangeWriter" where
  "WriteIndent level s rw = Write (replicate level tab @ s) rw"

definition WriteStringLiteral ::
  "externs \<Rightarrow> nat \<Rightarrow> string \<Rightarrow> RangeWriter \<Rightarrow> Range \<times> RangeWriter" where
  "WriteStringLiteral X level s rw =
    (case Write (literalStatement X level s) rw of
       (r, rw') \<Rightarrow> (r, rw'\<lparr>Literals := Literals rw' @ [s]\<rparr>))"

section \<open>The generator\<close>

record generator =
  tf :: TemplateFile
  w :: RangeWriter
  sourceMap :: "(Range \<times> Range) SourceMap"
  variableID :: int
  childrenVar :: string
  options :: GeneratorOptions

text \<open>
  The calls \<^verbatim>\<open>g.w.Write\<close>, \<^verbatim>\<open>g.w.WriteIndent\<close> and \<^verbatim>\<open>g.w.WriteStringLiteral\<close> on the
  generator's state. \<open>mapped e f\<close> is the pattern
  \<^verbatim>\<open>r, err = f; g.sourceMap.Add(e, r)\<close>, \<open>discard f\<close> is \<^verbatim>\<open>_, err = f\<close>
  (\<open>wr\<close>, \<open>wrIndent\<close> and \<open>wrLiteral\<close> are the three writes with the range discarded),
  and \<open>steps\<close> runs state changes in order.
\<close>

definition gWrite :: "string \<Rightarrow> generator \<Rightarrow> Range \<times> generator" where
  "gWrite s g = (case Write s (w g) of (r, rw) \<Rightarrow> (r, g\<lparr>w := rw\<rparr>))"

definition gWriteIndent :: "nat \<Rightarrow> string \<Rightarrow> generator \<Rightarrow> Range \<times> generator" where
  "gWriteIndent level s g = (case WriteIndent level s (w g) of (r, rw) \<Rightarrow> (r, g\<lparr>w := rw\<rparr>))"

definition gWriteStringLiteral ::
  "externs \<Rightarrow> nat \<Rightarrow> string \<Rightarrow> generator \<Rightarrow> Range \<times> generator" where
  "gWriteStringLiteral X level s g =
    (case WriteStringLiteral X level s (w g) of (r, rw) \<Rightarrow> (r, g\<lparr>w := rw\<rparr>))"

definition discard :: "(generator \<Rightarrow> Range \<times> generator) \<Rightarrow> generator \<Rightarrow> generator" where
  "discard f g = snd (f g)"

definition mapped ::
  "Expression \<Rightarrow> (generator \<Rightarrow> Range \<times> generator) \<Rightarrow> generator \<Rightarrow> generator" where
  "mapped e f g = (case f g of (r, g') \<Rightarrow> g'\<lparr>sourceMap := Add e r (sourceMap g')\<rparr>)"

definition steps :: "(generator \<Rightarrow> generator) list \<Rightarrow> generator \<Rightarrow> generator" where
  "steps fs g = foldl (\<lambda>s f. f s) g fs"

definition wr :: "string \<Rightarrow> generator \<Rightarrow> generator" where
  "wr s = discard (gWrite s)"

definition wrIndent :: "nat \<Rightarrow> string \<Rightarrow> generator \<Rightarrow> generator" where
  "wrIndent level s = discard (gWriteIndent level s)"

definition wrLiteral :: "externs \<Rightarrow> nat \<Rightarrow> string \<Rightarrow> generator \<Rightarrow> generator" where
  "wrLiteral X level s = discard (gWriteStringLiteral X level s)"

definition createVariableName :: "generator \<Rightarrow> string \<times> generator" where
  "createVariableName g =
    (let g' = g\<lparr>variableID := variableID g + 1\<rparr>
     in (''templ_7745c5c3_Var'' @ Itoa (variableID g'), g'))"

subsection \<open>File prologue\<close>

definition writeCodeGeneratedComment :: "generator \<Rightarrow> generator" where
  "writeCodeGeneratedComment g =
    (if SkipCodeGeneratedComment (options g) then wr [CHR ''/'', CHR ''/'', newline, newline] g
     else wr (''// Code generated by templ - DO NOT EDIT.'' @ [newline, newline]) g)"

definition writeVersionComment :: "generator \<Rightarrow> generator" where
  "writeVersionComment g =
    (if Version (options g) \<noteq> [] then
       wr (''// templ: version: '' @ Version (options g) @ [newline]) g
     else g)"

definition writeGeneratedDateComment :: "generator \<Rightarrow> generator" where
  "writeGeneratedDateComment g =
    (if GeneratedDate (options g) \<noteq> [] then
       wr (''// templ: generated: '' @ GeneratedDate (options g) @ [newline]) g
     else g)"

definition writePackage :: "generator \<Rightarrow> generator" where
  "writePackage g =
    steps
      [mapped (Package (tf g)) (gWrite (Value (Package (tf g)) @ [newline, newline])),
       wr (''//lint:file-ignore SA4006 This context is only used if a nested component is present.''
           @ [newline, newline])] g"

definition writeImports :: "generator \<Rightarrow> generator" where
  \<open>writeImports g =
    steps
      [wr ''import "github.com/a-h/templ"\<newline>'',
       wr ''import templruntime "github.com/a-h/templ/runtime"\<newline>'',
       wr ''\<newline>''] g\<close>

definition writeBlankAssignmentForRuntimeImport :: "generator \<Rightarrow> generator" where
  "writeBlankAssignmentForRuntimeImport g = wr ''var _ = templruntime.GeneratedTemplate'' g"

subsection \<open>Error handlers and the buffer preamble\<close>

definition writeErrorHandler :: "nat \<Rightarrow> generator \<Rightarrow> generator" where
  "writeErrorHandler indentLevel g =
    steps
      [wrIndent indentLevel ''if templ_7745c5c3_Err != nil {\<newline>'',
       wrIndent (indentLevel + 1) ''return templ_7745c5c3_Err\<newline>'',
       wrIndent indentLevel ''}\<newline>''] g"

text \<open>
  \<^verbatim>\<open>expression.Range.To.Line + 1\<close> is computed in \<^verbatim>\<open>uint32\<close> and wraps there before the
  conversion to \<^verbatim>\<open>int\<close>.
\<close>

definition writeExpressionErrorHandler :: "nat \<Rightarrow> Expression \<Rightarrow> generator \<Rightarrow> generator" where
  "writeExpressionErrorHandler indentLevel expression g =
    (let line = uint (Line (To (ExpressionRange expression)) + 1);
         col = uint (Col (To (ExpressionRange expression)))
     in steps
      [wrIndent indentLevel ''if templ_7745c5c3_Err != nil {\<newline>'',
       wrIndent (indentLevel + 1)
         (''return'' @ [tab] @ ''templ.Error{Err: templ_7745c5c3_Err, FileName: ''
          @ createGoString (FileName (options g)) @ '', Line: '' @ Itoa line
          @ '', Col: '' @ Itoa col @ ''}\<newline>''),
       wrIndent indentLevel ''}\<newline>''] g)"

definition writeTemplBuffer :: "nat \<Rightarrow> generator \<Rightarrow> generator" where
  "writeTemplBuffer indentLevel g =
    steps
      [wrIndent indentLevel
         ''templ_7745c5c3_Buffer, templ_7745c5c3_IsBuffer := templruntime.GetBuffer(templ_7745c5c3_W)\<newline>'',
       wrIndent indentLevel ''if !templ_7745c5c3_IsBuffer {\<newline>'',
       wrIndent (indentLevel + 1) ''defer func() {\<newline>'',
       wrIndent (indentLevel + 2)
         ''templ_7745c5c3_BufErr := templruntime.ReleaseBuffer(templ_7745c5c3_Buffer)\<newline>'',
       wrIndent (indentLevel + 2) ''if templ_7745c5c3_Err == nil {\<newline>'',
       wrIndent (indentLevel + 3) ''templ_7745c5c3_Err = templ_7745c5c3_BufErr\<newline>'',
       wrIndent (indentLevel + 2) ''}\<newline>'',
       wrIndent (indentLevel + 1) ''}()\<newline>'',
       wrIndent indentLevel ''}\<newline>''] g"

subsection \<open>Whitespace\<close>

fun isWhitespace :: "Node \<Rightarrow> bool" where
  "isWhitespace (Whitespace v) = True"
| "isWhitespace n = False"

definition stripWhitespace :: "Node list \<Rightarrow> Node list" where
  "stripWhitespace input = filter (\<lambda>n. \<not> isWhitespace n) input"

definition stripLeadingWhitespace :: "Node list \<Rightarrow> Node list" where
  "stripLeadingWhitespace nodes = dropWhile isWhitespace nodes"

definition stripTrailingWhitespace :: "Node list \<Rightarrow> Node list" where
  "stripTrailingWhitespace nodes = rev (dropWhile isWhitespace (rev nodes))"

definition stripLeadingAndTrailingWhitespace :: "Node list \<Rightarrow> Node list" where
  "stripLeadingAndTrailingWhitespace nodes =
     stripTrailingWhitespace (stripLeadingWhitespace nodes)"

text \<open>
  \<^verbatim>\<open>isInlineOrText\<close>; the argument is an interface value, \<open>None\<close> is \<^verbatim>\<open>nil\<close>.
\<close>

definition isInlineOrText :: "externs \<Rightarrow> Node option \<Rightarrow> bool" where
  "isInlineOrText X next =
    (case next of
       None \<Rightarrow> False
     | Some n \<Rightarrow>
        (case n of
           IfExpression e thn elseIfs els \<Rightarrow> True
         | SwitchExpression e cases \<Rightarrow> True
         | ForExpression e children \<Rightarrow> True
         | Element name attrs children \<Rightarrow> \<not> IsBlockElement X n
         | Text v \<Rightarrow> True
         | StringExpression e \<Rightarrow> True
         | _ \<Rightarrow> False))"

text \<open>
  Modelled from the spec: the parser's constants \<^verbatim>\<open>SpaceNone\<close>, \<^verbatim>\<open>SpaceHorizontal\<close>
  and \<^verbatim>\<open>SpaceVertical\<close> are not in the sources; the conversion \<^verbatim>\<open>string(n)\<close> gives the
  empty string, the single space and the line feed.
\<close>

definition trailingSpaceString :: "TrailingSpace \<Rightarrow> string" where
  "trailingSpaceString n =
    (case n of SpaceNone \<Rightarrow> [] | SpaceHorizontal \<Rightarrow> '' '' | SpaceVertical \<Rightarrow> [newline])"

definition writeWhitespaceTrailer :: "externs \<Rightarrow> nat \<Rightarrow> TrailingSpace \<Rightarrow> generator \<Rightarrow> generator" where
  "writeWhitespaceTrailer X indentLevel n g =
    (if n = SpaceNone then g
     else let n' = (if n = SpaceVertical then SpaceHorizontal else n)
          in wrLiteral X indentLevel (trailingSpaceString n') g)"

definition writeWhitespace :: "externs \<Rightarrow> nat \<Rightarrow> string \<Rightarrow> generator \<Rightarrow> generator" where
  "writeWhitespace X indentLevel v g =
    (if length v = 0 then g else wrLiteral X indentLevel '' '' g)"

definition writeText :: "externs \<Rightarrow> nat \<Rightarrow> string \<Rightarrow> generator \<Rightarrow> generator" where
  "writeText X indentLevel v g = wrLiteral X indentLevel (escapeQuotes X v) g"

definition writeDocType :: "externs \<Rightarrow> nat \<Rightarrow> string \<Rightarrow> generator \<Rightarrow> generator" where
  "writeDocType X indentLevel v g =
     wrLiteral X indentLevel (''<!doctype '' @ escapeQuotes X v @ ''>'') g"

definition writeComment :: "externs \<Rightarrow> nat \<Rightarrow> string \<Rightarrow> generator \<Rightarrow> generator" where
  "writeComment X indentLevel contents g =
    steps
      [wrLiteral X indentLevel ''<!--'',
       writeText X indentLevel contents,
       wrLiteral X indentLevel ''-->''] g"

subsection \<open>Expressions and calls\<close>

definition writeGoCode :: "nat \<Rightarrow> Expression \<Rightarrow> generator \<Rightarrow> generator" where
  "writeGoCode indentLevel e g =
    (if TrimSpace (Value e) = [] then g
     else mapped e (gWriteIndent indentLevel (Value e @ [newline])) g)"

definition writeStringExpression :: "nat \<Rightarrow> Expression \<Rightarrow> generator \<Rightarrow> generator" where
  "writeStringExpression indentLevel e g =
    (if TrimSpace (Value e) = [] then g
     else
       (case createVariableName g of (vn, g1) \<Rightarrow>
          steps
            [wrIndent indentLevel (''var '' @ vn @ '' string\<newline>''),
             wrIndent indentLevel (vn @ '', templ_7745c5c3_Err = templ.JoinStringErrs(''),
             mapped e (gWrite (Value e)),
             wr '')\<newline>'',
             writeExpressionErrorHandler indentLevel e,
             wrIndent indentLevel
               (''_, templ_7745c5c3_Err = templ_7745c5c3_Buffer.WriteString(templ.EscapeString(''
                @ vn @ ''))\<newline>''),
             writeErrorHandler indentLevel] g1))"

definition writeChildrenExpression :: "nat \<Rightarrow> generator \<Rightarrow> generator" where
  "writeChildrenExpression indentLevel g =
    steps
      [wrIndent indentLevel
         (''templ_7745c5c3_Err = '' @ childrenVar g @ ''.Render(ctx, templ_7745c5c3_Buffer)\<newline>''),
       writeErrorHandler indentLevel] g"

definition writeSelfClosingTemplElementExpression ::
  "nat \<Rightarrow> Expression \<Rightarrow> generator \<Rightarrow> generator" where
  "writeSelfClosingTemplElementExpression indentLevel e g =
    steps
      [wrIndent indentLevel ''templ_7745c5c3_Err = '',
       mapped e (gWrite (Value e)),
       wr ''.Render(ctx, templ_7745c5c3_Buffer)\<newline>'',
       writeErrorHandler indentLevel] g"

definition writeCallTemplateExpression :: "nat \<Rightarrow> Expression \<Rightarrow> generator \<Rightarrow> generator" where
  "writeCallTemplateExpression indentLevel e g =
    steps
      [wrIndent indentLevel ''templ_7745c5c3_Err = '',
       mapped e (gWrite (Value e)),
       wr ''.Render(ctx, templ_7745c5c3_Buffer)\<newline>'',
       writeErrorHandler indentLevel] g"

subsection \<open>Attributes\<close>

definition isScriptAttribute :: "string \<Rightarrow> bool" where
  "isScriptAttribute name = (prefix ''on'' name \<or> prefix ''hx-on:'' name)"

definition isExpressionAttributeValueURL :: "string \<Rightarrow> string \<Rightarrow> bool" where
  "isExpressionAttributeValueURL elementName attrName =
    (if elementName = ''a'' \<or> elementName = ''link'' then attrName = ''href''
     else if elementName = ''form'' then attrName = ''action''
     else if elementName = ''object'' then attrName = ''data''
     else False)"

text \<open>
  \<^verbatim>\<open>writeAttributeCSS\<close> returns \<^verbatim>\<open>(result, ok, err)\<close>: \<open>None\<close> is \<^verbatim>\<open>ok = false\<close>. The
  rewritten attribute's expression has the zero range.
\<close>

definition writeAttributeCSS ::
  "externs \<Rightarrow> nat \<Rightarrow> AttributeKey \<Rightarrow> Expression \<Rightarrow> generator \<Rightarrow> Attribute option \<times> generator" where
  "writeAttributeCSS X indentLevel key expression g =
    (let name = htmlEscapeString (KeyString X key) in
     if name \<noteq> ''class'' then (None, g)
     else
       (case createVariableName g of (classesName, g1) \<Rightarrow>
          (Some (ExpressionAttribute key
                   \<lparr>Value = ''templ.CSSClasses('' @ classesName @ '').String()'',
                    ExpressionRange = zeroRange\<rparr>),
           steps
             [wrIndent indentLevel (''var '' @ classesName @ '' = []any{''),
              mapped expression (gWrite (Value expression)),
              wr ''}\<newline>'',
              wrIndent indentLevel
                (''templ_7745c5c3_Err = templ.RenderCSSItems(ctx, templ_7745c5c3_Buffer, ''
                 @ classesName @ ''...)\<newline>''),
              writeErrorHandler indentLevel] g1)))"

text \<open>
  \<^verbatim>\<open>writeAttributesCSS\<close> overwrites elements of the slice it is given; the slices of a
  conditional attribute share their arrays with the caller's, so the result is the
  rewritten list.
\<close>

fun writeAttributesCSS ::
  "externs \<Rightarrow> nat \<Rightarrow> Attribute list \<Rightarrow> generator \<Rightarrow> Attribute list \<times> generator" where
  "writeAttributesCSS X indentLevel [] g = ([], g)"
| "writeAttributesCSS X indentLevel (ExpressionAttribute key expression # attrs) g =
     (case writeAttributeCSS X indentLevel key expression g of (res, g1) \<Rightarrow>
        (case writeAttributesCSS X indentLevel attrs g1 of (attrs', g2) \<Rightarrow>
           ((case res of None \<Rightarrow> ExpressionAttribute key expression | Some a \<Rightarrow> a) # attrs', g2)))"
| "writeAttributesCSS X indentLevel (ConditionalAttribute c thn els # attrs) g =
     (case writeAttributesCSS X indentLevel thn g of (thn', g1) \<Rightarrow>
        (case writeAttributesCSS X indentLevel els g1 of (els', g2) \<Rightarrow>
           (case writeAttributesCSS X indentLevel attrs g2 of (attrs', g3) \<Rightarrow>
              (ConditionalAttribute c thn' els' # attrs', g3))))"
| "writeAttributesCSS X indentLevel (attr # attrs) g =
     (case writeAttributesCSS X indentLevel attrs g of (attrs', g1) \<Rightarrow> (attr # attrs', g1))"

definition writeElementCSS ::
  "externs \<Rightarrow> nat \<Rightarrow> Attribute list \<Rightarrow> generator \<Rightarrow> Attribute list \<times> generator" where
  "writeElementCSS X indentLevel attrs g = writeAttributesCSS X indentLevel attrs g"

fun getAttributeScripts :: "externs \<Rightarrow> Attribute \<Rightarrow> string list" where
  "getAttributeScripts X (ConditionalAttribute c thn els) =
     concat (map (getAttributeScripts X) thn) @ concat (map (getAttributeScripts X) els)"
| "getAttributeScripts X (ExpressionAttribute key expression) =
     (if isScriptAttribute (htmlEscapeString (KeyString X key)) then [Value expression] else [])"
| "getAttributeScripts X attr = []"

definition writeElementScript :: "externs \<Rightarrow> nat \<Rightarrow> Attribute list \<Rightarrow> generator \<Rightarrow> generator" where
  "writeElementScript X indentLevel attrs g =
    (let scriptExpressions = concat (map (getAttributeScripts X) attrs) in
     if length scriptExpressions = 0 then g
     else steps
       [wrIndent indentLevel
          (''templ_7745c5c3_Err = templ.RenderScriptItems(ctx, templ_7745c5c3_Buffer, ''
           @ join scriptExpressions '', '' @ '')\<newline>''),
        writeErrorHandler indentLevel] g)"

definition writeAttributeKey :: "externs \<Rightarrow> nat \<Rightarrow> AttributeKey \<Rightarrow> generator \<Rightarrow> generator" where
  "writeAttributeKey X indentLevel attr g =
    (case attr of
       ConstantAttributeKey name \<Rightarrow> wrLiteral X indentLevel ('' '' @ htmlEscapeString name) g
     | ExpressionAttributeKey expression \<Rightarrow>
        (case createVariableName g of (vn, g1) \<Rightarrow>
           steps
             [wrIndent indentLevel (''var '' @ vn @ '' string\<newline>''),
              wrIndent indentLevel (vn @ '', templ_7745c5c3_Err = templ.JoinStringErrs(''),
              mapped expression (gWrite (Value expression)),
              wr '')\<newline>'',
              writeExpressionErrorHandler indentLevel expression,
              wrIndent indentLevel
                (''_, templ_7745c5c3_Err = templ_7745c5c3_Buffer.WriteString(templ.EscapeString(''
                 @ [backtick] @ '' '' @ [backtick] @ ''+'' @ vn @ ''))\<newline>''),
              writeErrorHandler indentLevel] g1))"

definition writeBoolConstantAttribute ::
  "externs \<Rightarrow> nat \<Rightarrow> AttributeKey \<Rightarrow> generator \<Rightarrow> generator" where
  "writeBoolConstantAttribute X indentLevel key g = writeAttributeKey X indentLevel key g"

definition writeConstantAttribute ::
  "externs \<Rightarrow> nat \<Rightarrow> AttributeKey \<Rightarrow> string \<Rightarrow> bool \<Rightarrow> generator \<Rightarrow> generator" where
  "writeConstantAttribute X indentLevel key val singleQuote g =
    (let quote = (if singleQuote then [squote] else [dquote]);
         v = escapeQuotes X (''='' @ quote @ val @ quote)
     in steps [writeAttributeKey X indentLevel key, wrLiteral X indentLevel v] g)"

definition writeBoolExpressionAttribute ::
  "externs \<Rightarrow> nat \<Rightarrow> AttributeKey \<Rightarrow> Expression \<Rightarrow> generator \<Rightarrow> generator" where
  "writeBoolExpressionAttribute X indentLevel key expression g =
    steps
      [wrIndent indentLevel ''if '',
       mapped expression (gWrite (Value expression)),
       wr '' {\<newline>'',
       writeAttributeKey X (indentLevel + 1) key,
       wrIndent indentLevel ''}\<newline>''] g"

definition writeExpressionAttributeValueURL :: "nat \<Rightarrow> Expression \<Rightarrow> generator \<Rightarrow> generator" where
  "writeExpressionAttributeValueURL indentLevel expression g =
    (case createVariableName g of (vn, g1) \<Rightarrow>
       steps
         [wrIndent indentLevel (''var '' @ vn @ '' templ.SafeURL\<newline>''),
          wrIndent indentLevel (vn @ '', templ_7745c5c3_Err = templ.JoinURLErrs(''),
          mapped expression (gWrite (Value expression)),
          wr '')\<newline>'',
          writeExpressionErrorHandler indentLevel expression,
          wrIndent indentLevel
            (''_, templ_7745c5c3_Err = templ_7745c5c3_Buffer.WriteString(templ.EscapeString(''
             @ vn @ ''))\<newline>''),
          writeErrorHandler indentLevel] g1)"

definition writeExpressionAttributeValueScript :: "nat \<Rightarrow> Expression \<Rightarrow> generator \<Rightarrow> generator" where
  "writeExpressionAttributeValueScript indentLevel expression g =
    (case createVariableName g of (vn, g1) \<Rightarrow>
       steps
         [wrIndent indentLevel (''var '' @ vn @ '' templ.ComponentScript = ''),
          mapped expression (gWrite (Value expression)),
          wr ''\<newline>'',
          wrIndent indentLevel
            (''_, templ_7745c5c3_Err = templ_7745c5c3_Buffer.WriteString('' @ vn @ ''.Call)\<newline>''),
          writeErrorHandler indentLevel] g1)"

definition writeExpressionAttributeValueDefault :: "nat \<Rightarrow> Expression \<Rightarrow> generator \<Rightarrow> generator" where
  "writeExpressionAttributeValueDefault indentLevel expression g =
    (case createVariableName g of (vn, g1) \<Rightarrow>
       steps
         [wrIndent indentLevel (''var '' @ vn @ '' string\<newline>''),
          wrIndent indentLevel (vn @ '', templ_7745c5c3_Err = templ.JoinStringErrs(''),
          mapped expression (gWrite (Value expression)),
          wr '')\<newline>'',
          writeExpressionErrorHandler indentLevel expression,
          wrIndent indentLevel
            (''_, templ_7745c5c3_Err = templ_7745c5c3_Buffer.WriteString(templ.EscapeString(''
             @ vn @ ''))\<newline>''),
          writeErrorHandler indentLevel] g1)"

definition writeExpressionAttributeValueStyle :: "nat \<Rightarrow> Expression \<Rightarrow> generator \<Rightarrow> generator" where
  "writeExpressionAttributeValueStyle indentLevel expression g =
    (case createVariableName g of (vn, g1) \<Rightarrow>
       steps
         [wrIndent indentLevel (''var '' @ vn @ '' string\<newline>''),
          wrIndent indentLevel
            (vn @ '', templ_7745c5c3_Err = templruntime.SanitizeStyleAttributeValues(''),
          mapped expression (gWrite (Value expression)),
          wr '')\<newline>'',
          writeExpressionErrorHandler indentLevel expression,
          wrIndent indentLevel
            (''_, templ_7745c5c3_Err = templ_7745c5c3_Buffer.WriteString(templ.EscapeString(''
             @ vn @ ''))\<newline>''),
          writeErrorHandler indentLevel] g1)"

definition writeExpressionAttribute ::
  "externs \<Rightarrow> nat \<Rightarrow> string \<Rightarrow> AttributeKey \<Rightarrow> Expression \<Rightarrow> generator \<Rightarrow> generator" where
  "writeExpressionAttribute X indentLevel elementName key expression g =
    (let attrKey = htmlEscapeString (KeyString X key) in
     steps
       [writeAttributeKey X indentLevel key,
        wrLiteral X indentLevel (''='' @ [backslash, dquote]),
        (if isExpressionAttributeValueURL elementName attrKey then
           writeExpressionAttributeValueURL indentLevel expression
         else if isScriptAttribute attrKey then
           writeExpressionAttributeValueScript indentLevel expression
         else if attrKey = ''style'' then
           writeExpressionAttributeValueStyle indentLevel expression
         else writeExpressionAttributeValueDefault indentLevel expression),
        wrLiteral X indentLevel [backslash, dquote]] g)"

definition writeSpreadAttributes :: "nat \<Rightarrow> Expression \<Rightarrow> generator \<Rightarrow> generator" where
  "writeSpreadAttributes indentLevel expression g =
    steps
      [wrIndent indentLevel ''templ_7745c5c3_Err = templ.RenderAttributes(ctx, templ_7745c5c3_Buffer, '',
       mapped expression (gWrite (Value expression)),
       wr '')\<newline>'',
       writeErrorHandler indentLevel] g"

text \<open>
  \<^verbatim>\<open>writeElementAttributes\<close> is the loop over the attributes, \<open>writeAttribute\<close> the type
  switch in its body and \<^verbatim>\<open>writeConditionalAttribute\<close> the case that calls the loop again.
\<close>

function writeElementAttributes ::
      "externs \<Rightarrow> nat \<Rightarrow> string \<Rightarrow> Attribute list \<Rightarrow> generator \<Rightarrow> generator"
  and writeAttribute ::
      "externs \<Rightarrow> nat \<Rightarrow> string \<Rightarrow> Attribute \<Rightarrow> generator \<Rightarrow> generator"
  and writeConditionalAttribute ::
      "externs \<Rightarrow> nat \<Rightarrow> string \<Rightarrow> Expression \<Rightarrow> Attribute list \<Rightarrow> Attribute list
         \<Rightarrow> generator \<Rightarrow> generator"
where
  "writeElementAttributes X indentLevel name [] g = g"
| "writeElementAttributes X indentLevel name (attr # attrs) g =
     writeElementAttributes X indentLevel name attrs (writeAttribute X indentLevel name attr g)"
| "writeAttribute X indentLevel name (BoolConstantAttribute key) g =
     writeBoolConstantAttribute X indentLevel key g"
| "writeAttribute X indentLevel name (ConstantAttribute key val singleQuote) g =
     writeConstantAttribute X indentLevel key val singleQuote g"
| "writeAttribute X indentLevel name (BoolExpressionAttribute key expression) g =
     writeBoolExpressionAttribute X indentLevel key expression g"
| "writeAttribute X indentLevel name (ExpressionAttribute key expression) g =
     writeExpressionAttribute X indentLevel name key expression g"
| "writeAttribute X indentLevel name (SpreadAttributes expression) g =
     writeSpreadAttributes indentLevel expression g"
| "writeAttribute X indentLevel name (ConditionalAttribute c thn els) g =
     writeConditionalAttribute X indentLevel name c thn els g"
| "writeConditionalAttribute X indentLevel elementName c thn els g =
     (let g1 = steps [wrIndent indentLevel ''if '', mapped c (gWrite (Value c)), wr '' {\<newline>''] g;
          g2 = writeElementAttributes X (indentLevel + 1) elementName thn g1;
          g3 = (if length els > 0 then
                  writeElementAttributes X (indentLevel + 1) elementName els
                    (wrIndent indentLevel ''} else {\<newline>'' g2)
                else g2)
      in wrIndent indentLevel ''}\<newline>'' g3)"
  by pat_completeness auto

termination
  by (relation "measure (\<lambda>x. case x of
          Inl (X, lvl, name, attrs, g) \<Rightarrow> 3 * size_list size attrs
        | Inr (Inl (X, lvl, name, attr, g)) \<Rightarrow> 3 * size attr + 2
        | Inr (Inr (X, lvl, name, c, thn, els, g)) \<Rightarrow>
            3 * (size_list size thn + size_list size els) + 1)")
     auto

subsection \<open>Elements\<close>

text \<open>
  The opening tag of \<^verbatim>\<open>writeElement\<close>: with no attributes the literal \<^verbatim>\<open><name>\<close>;
  otherwise the CSS and script preambles on a copy of the attributes, the literal
  \<^verbatim>\<open><name\<close>, the attributes and the literal \<^verbatim>\<open>>\<close>.
\<close>

definition writeElementOpenTag ::
  "externs \<Rightarrow> nat \<Rightarrow> string \<Rightarrow> Attribute list \<Rightarrow> generator \<Rightarrow> generator" where
  "writeElementOpenTag X indentLevel name attributes g =
    (if length attributes = 0 then
       wrLiteral X indentLevel (''<'' @ htmlEscapeString name @ ''>'') g
     else
       (case writeElementCSS X indentLevel (CopyAttributes X attributes) g of (attrs, g1) \<Rightarrow>
          steps
            [writeElementScript X indentLevel attrs,
             wrLiteral X indentLevel (''<'' @ htmlEscapeString name),
             writeElementAttributes X indentLevel name attrs,
             wrLiteral X indentLevel ''>''] g1))"

definition writeRawElement ::
  "externs \<Rightarrow> nat \<Rightarrow> string \<Rightarrow> Attribute list \<Rightarrow> string \<Rightarrow> generator \<Rightarrow> generator" where
  "writeRawElement X indentLevel name attributes contents g =
    steps
      [(if length attributes = 0 then
          wrLiteral X indentLevel (''<'' @ htmlEscapeString name @ ''>'')
        else
          steps
            [writeElementScript X indentLevel attributes,
             wrLiteral X indentLevel (''<'' @ htmlEscapeString name),
             writeElementAttributes X indentLevel name attributes,
             wrLiteral X indentLevel ''>'']),
       writeText X indentLevel contents,
       wrLiteral X indentLevel (''</'' @ htmlEscapeString name @ ''>'')] g"

definition writeScriptContents ::
  "externs \<Rightarrow> nat \<Rightarrow> ScriptContents \<Rightarrow> generator \<Rightarrow> error + generator" where
  "writeScriptContents X indentLevel c g =
    (case ScriptValue c of
       Some v \<Rightarrow> if v = [] then Inr g else Inr (writeText X indentLevel v g)
     | None \<Rightarrow>
        (case ScriptGoCode c of
           Some code \<Rightarrow>
             (case createVariableName g of (vn, g1) \<Rightarrow>
                let fnCall = (if InsideStringLiteral c
                              then ''templruntime.ScriptContentInsideStringLiteral''
                              else ''templruntime.ScriptContentOutsideStringLiteral'');
                    e = GoCodeExpression code
                in Inr (steps
                  [wrIndent indentLevel (vn @ '', templ_7745c5c3_Err := '' @ fnCall @ ''(''),
                   mapped e (gWrite (Value e)),
                   wr '')\<newline>'',
                   writeExpressionErrorHandler indentLevel e,
                   wrIndent indentLevel
                     (''_, templ_7745c5c3_Err = templ_7745c5c3_Buffer.WriteString('' @ vn @ '')\<newline>''),
                   writeErrorHandler indentLevel,
                   (if trailingSpaceString (GoCodeTrailingSpace code) \<noteq> [] then
                      writeText X indentLevel (trailingSpaceString (GoCodeTrailingSpace code))
                    else (\<lambda>s. s))] g1))
         | None \<Rightarrow> Inl UnknownScriptContent))"

fun writeScriptContentsList ::
  "externs \<Rightarrow> nat \<Rightarrow> ScriptContents list \<Rightarrow> generator \<Rightarrow> error + generator" where
  "writeScriptContentsList X indentLevel [] g = Inr g"
| "writeScriptContentsList X indentLevel (c # cs) g =
     bindE (writeScriptContents X indentLevel c g) (writeScriptContentsList X indentLevel cs)"

definition writeScriptElement ::
  "externs \<Rightarrow> nat \<Rightarrow> Attribute list \<Rightarrow> ScriptContents list \<Rightarrow> generator \<Rightarrow> error + generator" where
  "writeScriptElement X indentLevel attributes contents g =
    bindE
      (writeScriptContentsList X indentLevel contents
         (if length attributes = 0 then wrLiteral X indentLevel ''<script>'' g
          else steps
            [writeElementScript X indentLevel attributes,
             wrLiteral X indentLevel ''<script'',
             writeElementAttributes X indentLevel ''script'' attributes,
             wrLiteral X indentLevel ''>''] g))
      (\<lambda>g1. Inr (wrLiteral X indentLevel ''</script>'' g1))"

subsection \<open>Nodes\<close>

lemma size_list_filter_le: "size_list f (filter P xs) \<le> size_list f xs"
  by (induction xs) auto

lemma size_list_dropWhile_le: "size_list f (dropWhile P xs) \<le> size_list f xs"
  by (induction xs) auto

lemma size_list_rev: "size_list f (rev xs) = size_list f xs"
  by (induction xs) auto

lemma size_stripWhitespace: "size_list f (stripWhitespace xs) \<le> size_list f xs"
  by (simp add: stripWhitespace_def size_list_filter_le)

lemma size_stripLeadingAndTrailingWhitespace:
  "size_list f (stripLeadingAndTrailingWhitespace xs) \<le> size_list f xs"
proof -
  have "size_list f (stripTrailingWhitespace (stripLeadingWhitespace xs))
          \<le> size_list f (stripLeadingWhitespace xs)"
    using size_list_dropWhile_le [of f isWhitespace "rev (stripLeadingWhitespace xs)"]
    by (simp add: stripTrailingWhitespace_def size_list_rev)
  also have "\<dots> \<le> size_list f xs"
    by (simp add: stripLeadingWhitespace_def size_list_dropWhile_le)
  finally show ?thesis by (simp add: stripLeadingAndTrailingWhitespace_def)
qed

lemma stripWhitespace_measure:
  "5 * size_list f xs < r \<Longrightarrow> 5 * size_list f (stripWhitespace xs) < r"
  using size_stripWhitespace [of f xs] by simp

lemma stripLeadingAndTrailingWhitespace_measure:
  "5 * size_list f xs < r \<Longrightarrow> 5 * size_list f (stripLeadingAndTrailingWhitespace xs) < r"
  using size_stripLeadingAndTrailingWhitespace [of f xs] by simp

text \<open>
  \<^verbatim>\<open>writeNodes\<close> is the loop over the siblings; \<^verbatim>\<open>writeNode\<close> is the type switch
  (\<open>writeNodeSwitch\<close>) followed by the trailing-space step; \<open>writeElseIfs\<close> and \<open>writeCases\<close>
  are the loops of \<^verbatim>\<open>writeIfExpression\<close> and \<^verbatim>\<open>writeSwitchExpression\<close>. A Go comment
  returns from \<^verbatim>\<open>writeNode\<close> before the trailing-space step. (In Go the step also runs
  after a failed switch and the switch's error is returned afterwards; the result is the
  same error.)
\<close>

function writeNodes ::
      "externs \<Rightarrow> nat \<Rightarrow> Node list \<Rightarrow> Node option \<Rightarrow> generator \<Rightarrow> error + generator"
  and writeNode ::
      "externs \<Rightarrow> nat \<Rightarrow> Node \<Rightarrow> Node option \<Rightarrow> generator \<Rightarrow> error + generator"
  and writeNodeSwitch ::
      "externs \<Rightarrow> nat \<Rightarrow> Node \<Rightarrow> Node option \<Rightarrow> generator \<Rightarrow> error + generator"
  and writeElement ::
      "externs \<Rightarrow> nat \<Rightarrow> string \<Rightarrow> Attribute list \<Rightarrow> Node list \<Rightarrow> generator \<Rightarrow> error + generator"
  and writeIfExpression ::
      "externs \<Rightarrow> nat \<Rightarrow> Expression \<Rightarrow> Node list \<Rightarrow> (Expression \<times> Node list) list \<Rightarrow> Node list
         \<Rightarrow> Node option \<Rightarrow> generator \<Rightarrow> error + generator"
  and writeElseIfs ::
      "externs \<Rightarrow> nat \<Rightarrow> (Expression \<times> Node list) list \<Rightarrow> Node option \<Rightarrow> generator
         \<Rightarrow> error + generator"
  and writeSwitchExpression ::
      "externs \<Rightarrow> nat \<Rightarrow> Expression \<Rightarrow> (Expression \<times> Node list) list \<Rightarrow> Node option
         \<Rightarrow> generator \<Rightarrow> error + generator"
  and writeCases ::
      "externs \<Rightarrow> nat \<Rightarrow> (Expression \<times> Node list) list \<Rightarrow> Node option \<Rightarrow> generator
         \<Rightarrow> error + generator"
  and writeForExpression ::
      "externs \<Rightarrow> nat \<Rightarrow> Expression \<Rightarrow> Node list \<Rightarrow> Node option \<Rightarrow> generator
         \<Rightarrow> error + generator"
  and writeTemplElementExpression ::
      "externs \<Rightarrow> nat \<Rightarrow> Expression \<Rightarrow> Node list \<Rightarrow> generator \<Rightarrow> error + generator"
  and writeBlockTemplElementExpression ::
      "externs \<Rightarrow> nat \<Rightarrow> Expression \<Rightarrow> Node list \<Rightarrow> generator \<Rightarrow> error + generator"
where
  "writeNodes X indentLevel [] next g = Inr g"
| "writeNodes X indentLevel (cur # rest) next g =
     bindE (writeNode X indentLevel cur (case rest of [] \<Rightarrow> next | n # ns \<Rightarrow> Some n) g)
       (\<lambda>g1. writeNodes X indentLevel rest next g1)"
| "writeNode X indentLevel current next g =
     (if current = GoComment then Inr g
      else
        bindE (writeNodeSwitch X indentLevel current next g)
          (\<lambda>g1. if isInlineOrText X (Some current) \<and> isInlineOrText X next then
                  (case Trailing X current of
                     None \<Rightarrow> Inr g1
                   | Some ws \<Rightarrow> Inr (writeWhitespaceTrailer X indentLevel ws g1))
                else Inr g1))"
| "writeNodeSwitch X indentLevel (DocType v) next g = Inr (writeDocType X indentLevel v g)"
| "writeNodeSwitch X indentLevel (Element name attrs children) next g =
     writeElement X indentLevel name attrs children g"
| "writeNodeSwitch X indentLevel (HTMLComment contents) next g =
     Inr (writeComment X indentLevel contents g)"
| "writeNodeSwitch X indentLevel ChildrenExpression next g =
     Inr (writeChildrenExpression indentLevel g)"
| "writeNodeSwitch X indentLevel (RawElement name attrs contents) next g =
     Inr (writeRawElement X indentLevel name attrs contents g)"
| "writeNodeSwitch X indentLevel (ScriptElement attrs contents) next g =
     writeScriptElement X indentLevel attrs contents g"
| "writeNodeSwitch X indentLevel (ForExpression e children) next g =
     writeForExpression X indentLevel e children next g"
| "writeNodeSwitch X indentLevel (CallTemplateExpression e) next g =
     Inr (writeCallTemplateExpression indentLevel e g)"
| "writeNodeSwitch X indentLevel (TemplElementExpression e children) next g =
     writeTemplElementExpression X indentLevel e children g"
| "writeNodeSwitch X indentLevel (IfExpression e thn elseIfs els) next g =
     writeIfExpression X indentLevel e thn elseIfs els next g"
| "writeNodeSwitch X indentLevel (SwitchExpression e cases) next g =
     writeSwitchExpression X indentLevel e cases next g"
| "writeNodeSwitch X indentLevel (StringExpression e) next g =
     Inr (writeStringExpression indentLevel e g)"
| "writeNodeSwitch X indentLevel (GoCodeNode e) next g = Inr (writeGoCode indentLevel e g)"
| "writeNodeSwitch X indentLevel (Whitespace v) next g = Inr (writeWhitespace X indentLevel v g)"
| "writeNodeSwitch X indentLevel (Text v) next g = Inr (writeText X indentLevel v g)"
| "writeNodeSwitch X indentLevel GoComment next g = Inr g"
| "writeNodeSwitch X indentLevel OtherNode next g = Inl UnhandledType"
| "writeElement X indentLevel name attributes children g =
     (let g1 = writeElementOpenTag X indentLevel name attributes g in
      if IsVoidElement X (Element name attributes children) \<and> length children = 0 then Inr g1
      else
        bindE (writeNodes X indentLevel (stripWhitespace children) None g1)
          (\<lambda>g2. Inr (wrLiteral X indentLevel (''</'' @ htmlEscapeString name @ ''>'') g2)))"
| "writeIfExpression X indentLevel e thn elseIfs els nextNode g =
     bindE (writeNodes X (indentLevel + 1) (stripLeadingAndTrailingWhitespace thn) nextNode
              (steps [wrIndent indentLevel ''if '', mapped e (gWrite (Value e)),
                      wr '' {\<newline>''] g))
       (\<lambda>g1. bindE (writeElseIfs X indentLevel elseIfs nextNode g1)
       (\<lambda>g2. bindE (if length els > 0 then
                       writeNodes X (indentLevel + 1) (stripLeadingAndTrailingWhitespace els)
                         nextNode (wrIndent indentLevel ''} else {\<newline>'' g2)
                     else Inr g2)
       (\<lambda>g3. Inr (wrIndent indentLevel ''}\<newline>'' g3))))"
| "writeElseIfs X indentLevel [] nextNode g = Inr g"
| "writeElseIfs X indentLevel ((e, thn) # rest) nextNode g =
     bindE (writeNodes X (indentLevel + 1) (stripLeadingAndTrailingWhitespace thn) nextNode
              (steps [wrIndent indentLevel ''} else if '', mapped e (gWrite (Value e)),
                      wr '' {\<newline>''] g))
       (\<lambda>g1. writeElseIfs X indentLevel rest nextNode g1)"
| "writeSwitchExpression X indentLevel e cases next g =
     bindE (writeCases X indentLevel cases next
              (steps [wrIndent indentLevel ''switch '', mapped e (gWrite (Value e)),
                      wr '' {\<newline>''] g))
       (\<lambda>g1. Inr (wrIndent indentLevel ''}\<newline>'' g1))"
| "writeCases X indentLevel [] next g = Inr g"
| "writeCases X indentLevel ((e, children) # rest) next g =
     bindE (writeNodes X (indentLevel + 1) (stripLeadingAndTrailingWhitespace children) next
              (mapped e (gWriteIndent indentLevel (Value e)) g))
       (\<lambda>g1. writeCases X indentLevel rest next g1)"
| "writeForExpression X indentLevel e children next g =
     bindE (writeNodes X (indentLevel + 1) (stripLeadingAndTrailingWhitespace children) next
              (steps [wrIndent indentLevel ''for '', mapped e (gWrite (Value e)),
                      wr '' {\<newline>''] g))
       (\<lambda>g1. Inr (wrIndent indentLevel ''}\<newline>'' g1))"
| "writeTemplElementExpression X indentLevel e children g =
     (if length children = 0 then Inr (writeSelfClosingTemplElementExpression indentLevel e g)
      else writeBlockTemplElementExpression X indentLevel e children g)"
| "writeBlockTemplElementExpression X indentLevel e children g =
     (case createVariableName g of (childrenName, g0) \<Rightarrow>
        bindE (writeNodes X (indentLevel + 1) (stripLeadingAndTrailingWhitespace children) None
                 (steps
                    [wrIndent indentLevel
                       (childrenName
                        @ '' := templruntime.GeneratedTemplate(func(templ_7745c5c3_Input templruntime.GeneratedComponentInput) (templ_7745c5c3_Err error) {\<newline>''),
                     wrIndent (indentLevel + 1)
                       ''templ_7745c5c3_W, ctx := templ_7745c5c3_Input.Writer, templ_7745c5c3_Input.Context\<newline>'',
                     writeTemplBuffer (indentLevel + 1),
                     wrIndent (indentLevel + 1) ''ctx = templ.InitializeContext(ctx)\<newline>''] g0))
          (\<lambda>g1. Inr (steps
                    [wrIndent (indentLevel + 1) ''return nil\<newline>'',
                     wrIndent indentLevel ''})\<newline>'',
                     wrIndent indentLevel ''templ_7745c5c3_Err = '',
                     mapped e (gWrite (Value e)),
                     wr (''.Render(templ.WithChildren(ctx, '' @ childrenName
                         @ ''), templ_7745c5c3_Buffer)\<newline>''),
                     writeErrorHandler indentLevel] g1)))"
  by pat_completeness auto

termination
  by (relation "measure (\<lambda>x. case x of
      Inl (Inl (Inl (X, lvl, nodes, next, g))) \<Rightarrow> 5 * size_list size nodes
    | Inl (Inl (Inr (X, lvl, n, next, g))) \<Rightarrow> 5 * size n + 4
    | Inl (Inr (Inl (X, lvl, n, next, g))) \<Rightarrow> 5 * size n + 3
    | Inl (Inr (Inr (Inl (X, lvl, name, attrs, children, g)))) \<Rightarrow>
        5 * size_list size children + 1
    | Inl (Inr (Inr (Inr (X, lvl, e, thn, elseIfs, els, next, g)))) \<Rightarrow>
        5 * (size_list size thn + size_list (size_prod (\<lambda>x. 0) (size_list size)) elseIfs
             + size_list size els) + 2
    | Inr (Inl (Inl (X, lvl, elseIfs, next, g))) \<Rightarrow>
        5 * size_list (size_prod (\<lambda>x. 0) (size_list size)) elseIfs + 1
    | Inr (Inl (Inr (Inl (X, lvl, e, cases, next, g)))) \<Rightarrow>
        5 * size_list (size_prod (\<lambda>x. 0) (size_list size)) cases + 2
    | Inr (Inl (Inr (Inr (X, lvl, cases, next, g)))) \<Rightarrow>
        5 * size_list (size_prod (\<lambda>x. 0) (size_list size)) cases + 1
    | Inr (Inr (Inl (X, lvl, e, children, next, g))) \<Rightarrow> 5 * size_list size children + 1
    | Inr (Inr (Inr (Inl (X, lvl, e, children, g)))) \<Rightarrow> 5 * size_list size children + 2
    | Inr (Inr (Inr (Inr (X, lvl, e, children, g)))) \<Rightarrow> 5 * size_list size children + 1)")
     (auto intro!: stripWhitespace_measure stripLeadingAndTrailingWhitespace_measure)

declare writeNode.simps [simp del] writeElement.simps [simp del]
  writeIfExpression.simps [simp del] writeSwitchExpression.simps [simp del]
  writeForExpression.simps [simp del] writeTemplElementExpression.simps [simp del]
  writeBlockTemplElementExpression.simps [simp del]

subsection \<open>Top-level declarations\<close>

text \<open>
  \<^verbatim>\<open>writeGoExpression\<close>: a block whose last line starts with \<^verbatim>\<open>//\<close> is followed by one
  line feed and registers no symbol range; any other block is followed by two line feeds
  and registers its range.
\<close>

definition writeGoExpression ::
  "TemplateFileGoExpression option \<Rightarrow> generator \<Rightarrow> error + generator" where
  "writeGoExpression n g =
    (case n of
       None \<Rightarrow> Inl GoExpressionIsNil
     | Some (TemplateFileGoExpression expression) \<Rightarrow>
        (case gWrite (Value expression) g of (r, g1) \<Rightarrow>
           let g2 = g1\<lparr>sourceMap := Add expression r (sourceMap g1)\<rparr>;
               v = Value expression;
               lineSlice = splitOn newline v;
               lastLine = last lineSlice
           in if prefix ''//'' lastLine then Inr (wrIndent 0 [newline] g2)
              else
                (case gWriteIndent 0 [newline, newline] g2 of (r', g3) \<Rightarrow>
                   Inr (g3\<lparr>sourceMap :=
                          AddSymbolRange (ExpressionRange expression) \<lparr>From = From r, To = To r'\<rparr>
                            (sourceMap g3)\<rparr>))))"

fun writeHeaderLoop ::
  "TemplateFileGoExpression option list \<Rightarrow> generator \<Rightarrow> error + generator" where
  "writeHeaderLoop [] g = Inr g"
| "writeHeaderLoop (n # ns) g = bindE (writeGoExpression n g) (writeHeaderLoop ns)"

definition writeHeader :: "generator \<Rightarrow> error + generator" where
  "writeHeader g =
    (if length (Header (tf g)) = 0 then Inr g else writeHeaderLoop (Header (tf g)) g)"

fun writeCSSProperties ::
  "externs \<Rightarrow> nat \<Rightarrow> CSSProperty list \<Rightarrow> generator \<Rightarrow> error + generator" where
  "writeCSSProperties X indentLevel [] g = Inr g"
| "writeCSSProperties X indentLevel (p # ps) g =
     bindE
       (case p of
          ConstantCSSProperty name val \<Rightarrow>
            Inr (wrIndent indentLevel
                   (''templ_7745c5c3_CSSBuilder.WriteString(''
                    @ createGoString (CSSPropertyString X p) @ '')\<newline>'') g)
        | ExpressionCSSProperty name e \<Rightarrow>
            Inr (steps
                   [wrIndent indentLevel
                      (''templ_7745c5c3_CSSBuilder.WriteString(string(templ.SanitizeCSS(''
                       @ [backtick] @ name @ [backtick] @ '', ''),
                    mapped e (gWrite (Value e)),
                    wr '')))\<newline>''] g)
        | OtherCSSProperty \<Rightarrow> Inl UnknownCSSPropertyType)
       (writeCSSProperties X indentLevel ps)"

definition writeCSS :: "externs \<Rightarrow> CSSTemplate option \<Rightarrow> generator \<Rightarrow> error + generator" where
  "writeCSS X n g =
    (case n of
       None \<Rightarrow> Inl CSSTemplateIsNil
     | Some (CSSTemplate rng name expression properties) \<Rightarrow>
        (case gWrite ''func '' g of (r, g1) \<Rightarrow>
           bindE
             (writeCSSProperties X 1 properties
                (steps
                   [mapped expression (gWrite (Value expression)),
                    wr '' templ.CSSClass {\<newline>'',
                    wrIndent 1 ''templ_7745c5c3_CSSBuilder := templruntime.GetBuilder()\<newline>''] g1))
             (\<lambda>g2.
                (case gWriteIndent 0 ''}\<newline>\<newline>''
                        (steps
                           [wrIndent 1
                              (''templ_7745c5c3_CSSID := templ.CSSID('' @ [backtick] @ name
                               @ [backtick] @ '', templ_7745c5c3_CSSBuilder.String())\<newline>''),
                            wrIndent 1 ''return templ.ComponentCSSClass{\<newline>'',
                            wrIndent 2 ''ID: templ_7745c5c3_CSSID,\<newline>'',
                            wrIndent 2
                              (''Class: templ.SafeCSS('' @ [backtick] @ ''.'' @ [backtick]
                               @ '' + templ_7745c5c3_CSSID + '' @ [backtick] @ ''{'' @ [backtick]
                               @ '' + templ_7745c5c3_CSSBuilder.String() + '' @ [backtick] @ ''}''
                               @ [backtick] @ ''),\<newline>''),
                            wrIndent 1 ''}\<newline>''] g2) of
                   (r', g3) \<Rightarrow>
                     Inr (g3\<lparr>sourceMap :=
                            AddSymbolRange rng \<lparr>From = From r, To = To r'\<rparr> (sourceMap g3)\<rparr>)))))"

text \<open>
  \<^verbatim>\<open>writeTemplate\<close>: the closing brace is followed by a blank line unless the template is
  the last node of the file.
\<close>

definition writeTemplate ::
  "externs \<Rightarrow> nat \<Rightarrow> HTMLTemplate option \<Rightarrow> generator \<Rightarrow> error + generator" where
  "writeTemplate X nodeIdx t g =
    (case t of
       None \<Rightarrow> Inl TemplateIsNil
     | Some (HTMLTemplate rng expression children) \<Rightarrow>
        (case gWrite ''func '' g of (r, g1) \<Rightarrow>
           let g2 = steps
                 [mapped expression (gWrite (Value expression)),
                  wr '' templ.Component {\<newline>'',
                  wrIndent 1
                    ''return templruntime.GeneratedTemplate(func(templ_7745c5c3_Input templruntime.GeneratedComponentInput) (templ_7745c5c3_Err error) {\<newline>'',
                  wrIndent 2
                    ''templ_7745c5c3_W, ctx := templ_7745c5c3_Input.Writer, templ_7745c5c3_Input.Context\<newline>'',
                  wrIndent 2
                    ''if templ_7745c5c3_CtxErr := ctx.Err(); templ_7745c5c3_CtxErr != nil {\<newline>'',
                  wrIndent 3 ''return templ_7745c5c3_CtxErr'',
                  wrIndent 2 ''}\<newline>'',
                  writeTemplBuffer 2,
                  wrIndent 2 ''ctx = templ.InitializeContext(ctx)\<newline>''] g1
           in
           (case createVariableName g2 of (vn, g3) \<Rightarrow>
              let g4 = g3\<lparr>childrenVar := vn\<rparr> in
              bindE
                (writeNodes X 2 (stripWhitespace children) None
                   (steps
                      [wrIndent 2 (childrenVar g4 @ '' := templ.GetChildren(ctx)\<newline>''),
                       wrIndent 2 (''if '' @ childrenVar g4 @ '' == nil {\<newline>''),
                       wrIndent 3 (childrenVar g4 @ '' = templ.NopComponent\<newline>''),
                       wrIndent 2 ''}\<newline>'',
                       wrIndent 2 ''ctx = templ.ClearChildren(ctx)\<newline>''] g4))
                (\<lambda>g5.
                   let closingBrace =
                         (if nodeIdx + 1 \<ge> length (Nodes (tf g5)) then ''}\<newline>''
                          else ''}\<newline>\<newline>'')
                   in
                   (case gWriteIndent 0 closingBrace
                           (steps [wrIndent 2 ''return nil\<newline>'',
                                   wrIndent 1 ''})\<newline>''] g5) of
                      (r', g6) \<Rightarrow>
                        Inr (g6\<lparr>sourceMap :=
                               AddSymbolRange rng \<lparr>From = From r, To = To r'\<rparr>
                                 (sourceMap g6)\<rparr>))))))"

text \<open>\<^verbatim>\<open>functionName\<close> and \<^verbatim>\<open>stripTypes\<close> of script templates.\<close>

definition functionName :: "externs \<Rightarrow> string \<Rightarrow> string \<Rightarrow> string" where
  "functionName X name body = ''__templ_'' @ name @ ''_'' @ take 4 (SHA256Hex X body)"

definition stripTypes :: "string \<Rightarrow> string" where
  "stripTypes parameters =
    join
      (map (\<lambda>param. TrimSpace (case splitOn (CHR '' '') (TrimSpace param) of
                                   [] \<Rightarrow> [] | p0 # ps \<Rightarrow> p0))
           (splitOn (CHR '','') parameters))
      '', ''"

definition writeScript :: "externs \<Rightarrow> ScriptTemplate option \<Rightarrow> generator \<Rightarrow> error + generator" where
  "writeScript X t g =
    (case t of
       None \<Rightarrow> Inl ScriptTemplateIsNil
     | Some (ScriptTemplate rng name parameters val) \<Rightarrow>
        (case gWrite ''func '' g of (r, g1) \<Rightarrow>
           let fn = functionName X (Value name) val;
               goFn = createGoString fn;
               pre = ''function '' @ fn @ ''('' @ stripTypes (Value parameters) @ ''){'';
               body = TrimLeftSpace val;
               suffix = ''}''
           in
           (case gWriteIndent 0 ''}\<newline>\<newline>''
                   (steps
                      [mapped name (gWrite (Value name)),
                       wr ''('',
                       mapped parameters (gWrite (Value parameters)),
                       wr '') templ.ComponentScript {\<newline>'',
                       wrIndent 1 ''return templ.ComponentScript{\<newline>'',
                       wrIndent 2 (''Name: '' @ goFn @ '',\<newline>''),
                       wrIndent 2
                         (''Function: '' @ createGoString (pre @ body @ suffix) @ '',\<newline>''),
                       wrIndent 2
                         (''Call: templ.SafeScript('' @ goFn @ '', ''
                          @ stripTypes (Value parameters) @ ''),\<newline>''),
                       wrIndent 2
                         (''CallInline: templ.SafeScriptInline('' @ goFn @ '', ''
                          @ stripTypes (Value parameters) @ ''),\<newline>''),
                       wrIndent 1 ''}\<newline>''] g1) of
              (r', g2) \<Rightarrow>
                Inr (g2\<lparr>sourceMap :=
                       AddSymbolRange rng \<lparr>From = From r, To = To r'\<rparr> (sourceMap g2)\<rparr>))))"

text \<open>
  \<^verbatim>\<open>writeTemplateNodes\<close>, as the loop over \<^verbatim>\<open>g.tf.Nodes\<close> from index \<open>i\<close> on.
\<close>

fun writeTemplateNodesFrom ::
  "externs \<Rightarrow> nat \<Rightarrow> TemplateFileNode list \<Rightarrow> generator \<Rightarrow> error + generator" where
  "writeTemplateNodesFrom X i [] g = Inr g"
| "writeTemplateNodesFrom X i (n # ns) g =
     bindE
       (case n of
          GoExpressionNode e \<Rightarrow> writeGoExpression e g
        | HTMLTemplateNode t \<Rightarrow> writeTemplate X i t g
        | CSSTemplateNode c \<Rightarrow> writeCSS X c g
        | ScriptTemplateNode s \<Rightarrow> writeScript X s g
        | OtherTemplateFileNode \<Rightarrow> Inl UnknownNodeType)
       (writeTemplateNodesFrom X (Suc i) ns)"

definition writeTemplateNodes :: "externs \<Rightarrow> generator \<Rightarrow> error + generator" where
  "writeTemplateNodes X g = writeTemplateNodesFrom X 0 (Nodes (tf g)) g"

definition generate :: "externs \<Rightarrow> generator \<Rightarrow> error + generator" where
  "generate X g =
    bindE (writeHeader
             (writeGeneratedDateComment (writeVersionComment (writeCodeGeneratedComment g))))
      (\<lambda>g1. bindE (writeTemplateNodes X (writeImports (writePackage g1)))
      (\<lambda>g2. Inr (writeBlankAssignmentForRuntimeImport g2)))"

text \<open>
  \<^verbatim>\<open>Generate\<close>. A \<^verbatim>\<open>GenerateOpt\<close> is a function on the unexported generator; the four
  the package offers are the constructors below and \<open>applyOpt\<close> is what each does (none
  returns an error). \<^verbatim>\<open>WithTimestamp\<close> carries the time already formatted as RFC 3339.
\<close>

datatype GenerateOpt =
    WithVersion string
  | WithTimestamp string
  | WithFileName string
  | WithSkipCodeGeneratedComment

definition applyOpt :: "externs \<Rightarrow> GenerateOpt \<Rightarrow> generator \<Rightarrow> generator" where
  "applyOpt X opt g =
    (case opt of
       WithVersion v \<Rightarrow> g\<lparr>options := (options g)\<lparr>Version := v\<rparr>\<rparr>
     | WithTimestamp d \<Rightarrow> g\<lparr>options := (options g)\<lparr>GeneratedDate := d\<rparr>\<rparr>
     | WithFileName name \<Rightarrow>
         (if IsAbs X name then g\<lparr>options := (options g)\<lparr>FileName := snd (Split X name)\<rparr>\<rparr>
          else g\<lparr>options := (options g)\<lparr>FileName := name\<rparr>\<rparr>)
     | WithSkipCodeGeneratedComment \<Rightarrow>
         g\<lparr>options := (options g)\<lparr>SkipCodeGeneratedComment := True\<rparr>\<rparr>)"

definition newGenerator :: "TemplateFile \<Rightarrow> generator" where
  "newGenerator template =
    \<lparr>tf = template, w = NewRangeWriter, sourceMap = NewSourceMap, variableID = 0,
     childrenVar = [],
     options = \<lparr>Version = [], FileName = [], SkipCodeGeneratedComment = False,
                GeneratedDate = []\<rparr>\<rparr>"

definition Generate ::
  "externs \<Rightarrow> TemplateFile \<Rightarrow> GenerateOpt list \<Rightarrow> error + (Range \<times> Range) GeneratorOutput" where
  "Generate X template opts =
    bindE (generate X (foldl (\<lambda>g opt. applyOpt X opt g) (newGenerator template) opts))
      (\<lambda>g'. Inr \<lparr>Options = options g', SourceMap = Some (sourceMap g'),
                  GeneratorOutput.Literals = Literals (w g')\<rparr>)"

section \<open>The template-element parser\<close>

text \<open>
  \<^verbatim>\<open>templElementExpressionParser.Parse\<close>. The input type \<open>'i\<close> (\<^verbatim>\<open>*parse.Input\<close>), the
  node type \<open>'n\<close> of the children and the parsers it calls are declared outside the file and
  are parameters: each takes the input and returns its results with the input advanced.
  An error is \<^verbatim>\<open>parse.Error(msg, pos)\<close>.
\<close>

datatype 'p parse_error = ParseError string 'p

record ('i, 'n, 'p) element_parsers =
  runeAt :: "'i \<Rightarrow> (bool \<times> 'p parse_error option) \<times> 'i"
  parseGo :: "'i \<Rightarrow> (Expression \<times> 'p parse_error option) \<times> 'i"
  openBraceWithOptionalPadding :: "'i \<Rightarrow> (bool \<times> 'p parse_error option) \<times> 'i"
  templateNodeParser :: "'i \<Rightarrow> ('n list \<times> bool \<times> 'p parse_error option) \<times> 'i"
  closeBraceWithOptionalPadding :: "'i \<Rightarrow> (bool \<times> 'p parse_error option) \<times> 'i"
  inputPosition :: "'i \<Rightarrow> 'p"

record 'n TemplElementExpressionNode =
  TExpression :: Expression
  TChildren :: "'n list"

text \<open>
  The result is \<^verbatim>\<open>(n, matched, err)\<close> and the input left behind; \<open>n = None\<close> is the
  \<^verbatim>\<open>nil\<close> node. The bare \<^verbatim>\<open>return\<close> after a failing open-brace parser returns the named
  results as they stand: \<^verbatim>\<open>n\<close> still \<^verbatim>\<open>nil\<close>, \<^verbatim>\<open>matched\<close> as the prefix parser set it.
\<close>

definition Parse ::
  "('i, 'n, 'p) element_parsers \<Rightarrow> 'i \<Rightarrow>
     ('n TemplElementExpressionNode option \<times> bool \<times> 'p parse_error option) \<times> 'i" where
  "Parse ps pi0 =
    (case runeAt ps pi0 of ((matched, err), pi1) \<Rightarrow>
      if err \<noteq> None \<or> \<not> matched then ((None, False, None), pi1)
      else
        (case parseGo ps pi1 of ((expr, err), pi2) \<Rightarrow>
          let r = \<lparr>TExpression = expr, TChildren = []\<rparr> in
          if err \<noteq> None then ((Some r, True, err), pi2)
          else
            (case openBraceWithOptionalPadding ps pi2 of ((hasOpenBrace, err), pi3) \<Rightarrow>
              if err \<noteq> None then ((None, matched, err), pi3)
              else if \<not> hasOpenBrace then ((Some r, True, None), pi3)
              else
                (case templateNodeParser ps pi3 of ((nodes, matched, err), pi4) \<Rightarrow>
                  if err \<noteq> None \<or> \<not> matched then
                    ((Some (r\<lparr>TChildren := nodes\<rparr>), True,
                      Some (ParseError (''@'' @ Value expr @ '': expected nodes, but none were found'')
                              (inputPosition ps pi4))), pi4)
                  else
                    (case closeBraceWithOptionalPadding ps pi4 of ((matched, err), pi5) \<Rightarrow>
                      if err \<noteq> None \<or> \<not> matched then
                        ((Some (r\<lparr>TChildren := nodes\<rparr>), True,
                          Some (ParseError (''@'' @ Value expr @ '': missing end (expected '}')'')
                                  (inputPosition ps pi5))), pi5)
                      else ((Some (r\<lparr>TChildren := nodes\<rparr>), True, None), pi5))))))"

text \<open>
  A small concrete instance of the parsers over strings, used to run \<open>Parse\<close>: the
  expression is the run of characters up to the first space or brace, padding is spaces,
  the body parser reads no nodes and always matches, and a position is the number of
  characters left.
\<close>

definition toyParsers :: "(string, unit, nat) element_parsers" where
  "toyParsers =
    \<lparr>runeAt = (\<lambda>s. case s of c # cs \<Rightarrow> if c = CHR ''@'' then ((True, None), cs)
                                     else ((False, None), s)
                       | [] \<Rightarrow> ((False, None), s)),
     parseGo = (\<lambda>s. ((\<lparr>Value = takeWhile (\<lambda>c. c \<notin> set '' {}'') s, ExpressionRange = zeroRange\<rparr>, None),
                      dropWhile (\<lambda>c. c \<notin> set '' {}'') s)),
     openBraceWithOptionalPadding =
       (\<lambda>s. case dropWhile (\<lambda>c. c = CHR '' '') s of
               c # cs \<Rightarrow> if c = CHR ''{'' then ((True, None), dropWhile (\<lambda>c. c = CHR '' '') cs)
                         else ((False, None), s)
             | [] \<Rightarrow> ((False, None), s)),
     templateNodeParser = (\<lambda>s. (([], True, None), s)),
     closeBraceWithOptionalPadding =
       (\<lambda>s. case dropWhile (\<lambda>c. c = CHR '' '') s of
               c # cs \<Rightarrow> if c = CHR ''}'' then ((True, None), dropWhile (\<lambda>c. c = CHR '' '') cs)
                         else ((False, None), s)
             | [] \<Rightarrow> ((False, None), s)),
     inputPosition = length\<rparr>"

section \<open>Concrete inputs\<close>

text \<open>Concrete outputs on which the change detection is run.\<close>

definition nilOutput :: "nat GeneratorOutput" where
  "nilOutput =
    \<lparr>Options = \<lparr>Version = [], FileName = [], SkipCodeGeneratedComment = False,
                 GeneratedDate = []\<rparr>,
     SourceMap = None, GeneratorOutput.Literals = []\<rparr>"

definition outputA :: "nat GeneratorOutput" where
  "outputA =
    \<lparr>Options = \<lparr>Version = ''v1'', FileName = ''a.templ'', SkipCodeGeneratedComment = False,
                 GeneratedDate = ''2024-01-01T00:00:00Z''\<rparr>,
     SourceMap = Some \<lparr>Expressions = [1, 2, 3], SymbolRanges = []\<rparr>,
     GeneratorOutput.Literals = [''<p>'', ''</p>'']\<rparr>"

definition outputB :: "nat GeneratorOutput" where
  "outputB =
    \<lparr>Options = \<lparr>Version = ''v1'', FileName = ''a.templ'', SkipCodeGeneratedComment = False,
                 GeneratedDate = ''2024-01-01T00:00:00Z''\<rparr>,
     SourceMap = Some \<lparr>Expressions = [1, 2, 4], SymbolRanges = []\<rparr>,
     GeneratorOutput.Literals = [''<p>'', ''</p>'']\<rparr>"

text \<open>
  Concrete parameters on which the generator is run: the void elements \<^verbatim>\<open>br\<close>, \<^verbatim>\<open>hr\<close>,
  \<^verbatim>\<open>img\<close> and \<^verbatim>\<open>input\<close>, the block elements \<^verbatim>\<open>div\<close> and \<^verbatim>\<open>p\<close>, a trailing space
  after every text and string expression, and a statement \<^verbatim>\<open>W("...")\<close> for a literal.
\<close>

definition exampleExterns :: externs where
  "exampleExterns =
    \<lparr>IsVoidElement =
       (\<lambda>n. case n of Element name a c \<Rightarrow> name \<in> set [''br'', ''hr'', ''img'', ''input'']
                     | _ \<Rightarrow> False),
     IsBlockElement =
       (\<lambda>n. case n of Element name a c \<Rightarrow> name \<in> set [''div'', ''p''] | _ \<Rightarrow> False),
     Trailing =
       (\<lambda>n. case n of Text v \<Rightarrow> Some SpaceHorizontal
                     | StringExpression e \<Rightarrow> Some SpaceVertical
                     | Element name a c \<Rightarrow> Some SpaceNone
                     | _ \<Rightarrow> None),
     KeyString =
       (\<lambda>k. case k of ConstantAttributeKey name \<Rightarrow> name
                     | ExpressionAttributeKey e \<Rightarrow> ''{ '' @ Value e @ '' }''),
     CSSPropertyString =
       (\<lambda>p. case p of ConstantCSSProperty name v \<Rightarrow> name @ '':'' @ v @ '';'' | _ \<Rightarrow> []),
     CopyAttributes = (\<lambda>attrs. attrs),
     IsPrint = (\<lambda>r. 0xA1 \<le> r \<and> r \<noteq> 0xAD),
     SHA256Hex = (\<lambda>s. ''0000000000000000000000000000000000000000000000000000000000000000''),
     IsAbs = (\<lambda>name. prefix ''/'' name),
     Split = (\<lambda>name. (rev (dropWhile (\<lambda>c. c \<noteq> CHR ''/'') (rev name)),
                      rev (takeWhile (\<lambda>c. c \<noteq> CHR ''/'') (rev name)))),
     literalStatement =
       (\<lambda>level s. replicate level tab @ ''W('' @ [dquote] @ s @ [dquote] @ '')'' @ [newline])\<rparr>"

definition mkExpr :: "string \<Rightarrow> Expression" where
  "mkExpr s = \<lparr>Value = s, ExpressionRange = zeroRange\<rparr>"

definition emptyFile :: TemplateFile where
  "emptyFile = \<lparr>Header = [], Package = mkExpr ''package main'', Nodes = []\<rparr>"

definition scriptGoCodeVertical :: ScriptContents where
  "scriptGoCodeVertical =
    \<lparr>ScriptValue = None,
     ScriptGoCode = Some \<lparr>GoCodeExpression = mkExpr ''x'', GoCodeTrailingSpace = SpaceVertical\<rparr>,
     InsideStringLiteral = False\<rparr>"

text \<open>The literals recorded by an emission that succeeded.\<close>

definition emittedLiterals :: "error + generator \<Rightarrow> error + string list" where
  "emittedLiterals r = (case r of Inl e \<Rightarrow> Inl e | Inr g \<Rightarrow> Inr (Literals (w g)))"

section \<open>Basic facts about the writer and the generator state\<close>

lemma steps_Nil [simp]: "steps [] g = g"
  by (simp add: steps_def)

lemma steps_Cons [simp]: "steps (f # fs) g = steps fs (f g)"
  by (simp add: steps_def)

lemma Index_advance [simp]: "Index (advance p s) = Index p + length s"
  by (induction s arbitrary: p) auto

lemma createVariableName_eq:
  "createVariableName g =
     (''templ_7745c5c3_Var'' @ Itoa (variableID g + 1), g\<lparr>variableID := variableID g + 1\<rparr>)"
  by (simp add: createVariableName_def Let_def)

lemma wr_simps [simp]:
  "tf (wr s g) = tf g"
  "options (wr s g) = options g"
  "sourceMap (wr s g) = sourceMap g"
  "variableID (wr s g) = variableID g"
  "childrenVar (wr s g) = childrenVar g"
  "Sink (w (wr s g)) = Sink (w g) @ s"
  "Literals (w (wr s g)) = Literals (w g)"
  "Current (w (wr s g)) = advance (Current (w g)) s"
  by (simp_all add: wr_def discard_def gWrite_def Write_def Let_def)

lemma wrIndent_simps [simp]:
  "tf (wrIndent l s g) = tf g"
  "options (wrIndent l s g) = options g"
  "sourceMap (wrIndent l s g) = sourceMap g"
  "variableID (wrIndent l s g) = variableID g"
  "childrenVar (wrIndent l s g) = childrenVar g"
  "Sink (w (wrIndent l s g)) = Sink (w g) @ replicate l tab @ s"
  "Literals (w (wrIndent l s g)) = Literals (w g)"
  "Current (w (wrIndent l s g)) = advance (Current (w g)) (replicate l tab @ s)"
  by (simp_all add: wrIndent_def discard_def gWriteIndent_def WriteIndent_def Write_def Let_def)

lemma wrLiteral_simps [simp]:
  "tf (wrLiteral X l s g) = tf g"
  "options (wrLiteral X l s g) = options g"
  "sourceMap (wrLiteral X l s g) = sourceMap g"
  "variableID (wrLiteral X l s g) = variableID g"
  "childrenVar (wrLiteral X l s g) = childrenVar g"
  "Sink (w (wrLiteral X l s g)) = Sink (w g) @ literalStatement X l s"
  "Literals (w (wrLiteral X l s g)) = Literals (w g) @ [s]"
  "Current (w (wrLiteral X l s g)) = advance (Current (w g)) (literalStatement X l s)"
  by (simp_all add: wrLiteral_def discard_def gWriteStringLiteral_def WriteStringLiteral_def
        Write_def Let_def)

lemma gWrite_simps [simp]:
  "fst (gWrite s g) = \<lparr>From = Current (w g), To = advance (Current (w g)) s\<rparr>"
  "snd (gWrite s g) = wr s g"
  by (simp_all add: wr_def discard_def gWrite_def Write_def Let_def)

lemma gWriteIndent_simps [simp]:
  "fst (gWriteIndent l s g) =
     \<lparr>From = Current (w g), To = advance (Current (w g)) (replicate l tab @ s)\<rparr>"
  "snd (gWriteIndent l s g) = wrIndent l s g"
  by (simp_all add: wrIndent_def discard_def gWriteIndent_def WriteIndent_def Write_def Let_def)

lemma mapped_eq:
  "mapped e f g = (snd (f g))\<lparr>sourceMap := Add e (fst (f g)) (sourceMap (snd (f g)))\<rparr>"
  by (simp add: mapped_def split: prod.splits)

lemma mapped_gWrite_simps [simp]:
  "tf (mapped e (gWrite s) g) = tf g"
  "options (mapped e (gWrite s) g) = options g"
  "variableID (mapped e (gWrite s) g) = variableID g"
  "childrenVar (mapped e (gWrite s) g) = childrenVar g"
  "w (mapped e (gWrite s) g) = w (wr s g)"
  "SymbolRanges (sourceMap (mapped e (gWrite s) g)) = SymbolRanges (sourceMap g)"
  "Expressions (sourceMap (mapped e (gWrite s) g)) =
     Expressions (sourceMap g)
     @ [(ExpressionRange e, \<lparr>From = Current (w g), To = advance (Current (w g)) s\<rparr>)]"
  by (simp_all add: mapped_eq Add_def)

lemma mapped_gWriteIndent_simps [simp]:
  "tf (mapped e (gWriteIndent l s) g) = tf g"
  "options (mapped e (gWriteIndent l s) g) = options g"
  "variableID (mapped e (gWriteIndent l s) g) = variableID g"
  "childrenVar (mapped e (gWriteIndent l s) g) = childrenVar g"
  "w (mapped e (gWriteIndent l s) g) = w (wrIndent l s g)"
  "SymbolRanges (sourceMap (mapped e (gWriteIndent l s) g)) = SymbolRanges (sourceMap g)"
  "Expressions (sourceMap (mapped e (gWriteIndent l s) g)) =
     Expressions (sourceMap g)
     @ [(ExpressionRange e,
         \<lparr>From = Current (w g), To = advance (Current (w g)) (replicate l tab @ s)\<rparr>)]"
  by (simp_all add: mapped_eq Add_def)

subsection \<open>Append-only state\<close>

text \<open>
  \<open>extends g g'\<close>: \<open>g'\<close> is \<open>g\<close> after more writes that register no symbol range. The
  template file and the options are the same, the symbol ranges are the same, the cursor
  has not moved back, and the output, the literals and the source-map expressions of \<open>g\<close>
  are prefixes of those of \<open>g'\<close>; the variable counter has not decreased.
\<close>

definition extends :: "generator \<Rightarrow> generator \<Rightarrow> bool" where
  "extends g g' \<longleftrightarrow>
     tf g' = tf g \<and> options g' = options g
     \<and> SymbolRanges (sourceMap g') = SymbolRanges (sourceMap g)
     \<and> Index (Current (w g)) \<le> Index (Current (w g'))
     \<and> prefix (Sink (w g)) (Sink (w g'))
     \<and> prefix (Literals (w g)) (Literals (w g'))
     \<and> prefix (Expressions (sourceMap g)) (Expressions (sourceMap g'))
     \<and> variableID g \<le> variableID g'"

definition extendsE :: "generator \<Rightarrow> error + generator \<Rightarrow> bool" where
  "extendsE g r = (case r of Inl e \<Rightarrow> True | Inr g' \<Rightarrow> extends g g')"

named_theorems ext \<open>rules that carry extends over a state change\<close>

lemma extends_refl [simp, ext]: "extends g g"
  by (simp add: extends_def)

lemma extends_trans: "extends a b \<Longrightarrow> extends b c \<Longrightarrow> extends a c"
  unfolding extends_def by (metis order_trans prefix_order.order_trans)

lemma extendsE_Inr [simp]: "extendsE g (Inr g') = extends g g'"
  by (simp add: extendsE_def)

lemma extendsE_Inl [simp]: "extendsE g (Inl e)"
  by (simp add: extendsE_def)

lemma extendsE_bindE [ext]:
  "extendsE g m \<Longrightarrow> (\<And>g1. m = Inr g1 \<Longrightarrow> extends g g1 \<Longrightarrow> extendsE g (f g1))
     \<Longrightarrow> extendsE g (bindE m f)"
  by (cases m) simp_all

lemma extends_wr [ext]: "extends g g1 \<Longrightarrow> extends g (wr s g1)"
  by (rule extends_trans [of _ g1]) (simp_all add: extends_def)

lemma extends_wrIndent [ext]: "extends g g1 \<Longrightarrow> extends g (wrIndent l s g1)"
  by (rule extends_trans [of _ g1]) (simp_all add: extends_def)

lemma extends_wrLiteral [ext]: "extends g g1 \<Longrightarrow> extends g (wrLiteral X l s g1)"
  by (rule extends_trans [of _ g1]) (simp_all add: extends_def)

lemma extends_mapped_gWrite [ext]: "extends g g1 \<Longrightarrow> extends g (mapped e (gWrite s) g1)"
  by (rule extends_trans [of _ g1]) (simp_all add: extends_def)

lemma extends_mapped_gWriteIndent [ext]:
  "extends g g1 \<Longrightarrow> extends g (mapped e (gWriteIndent l s) g1)"
  by (rule extends_trans [of _ g1]) (simp_all add: extends_def)

lemma extends_variableID [ext]:
  "extends g g1 \<Longrightarrow> extends g (g1\<lparr>variableID := variableID g1 + 1\<rparr>)"
  by (rule extends_trans [of _ g1]) (simp_all add: extends_def)

lemma extends_childrenVar [ext]: "extends g g1 \<Longrightarrow> extends g (g1\<lparr>childrenVar := v\<rparr>)"
  by (rule extends_trans [of _ g1]) (simp_all add: extends_def)

subsection \<open>Every emission step is append-only\<close>

lemma extends_writeCodeGeneratedComment [ext]:
  "extends g g1 \<Longrightarrow> extends g (writeCodeGeneratedComment g1)"
  by (auto simp: writeCodeGeneratedComment_def intro!: ext)

lemma extends_writeVersionComment [ext]:
  "extends g g1 \<Longrightarrow> extends g (writeVersionComment g1)"
  by (auto simp: writeVersionComment_def intro!: ext)

lemma extends_writeGeneratedDateComment [ext]:
  "extends g g1 \<Longrightarrow> extends g (writeGeneratedDateComment g1)"
  by (auto simp: writeGeneratedDateComment_def intro!: ext)

lemma extends_writePackage [ext]: "extends g g1 \<Longrightarrow> extends g (writePackage g1)"
  by (auto simp: writePackage_def intro!: ext)

lemma extends_writeImports [ext]: "extends g g1 \<Longrightarrow> extends g (writeImports g1)"
  by (auto simp: writeImports_def intro!: ext)

lemma extends_writeBlankAssignmentForRuntimeImport [ext]:
  "extends g g1 \<Longrightarrow> extends g (writeBlankAssignmentForRuntimeImport g1)"
  by (auto simp: writeBlankAssignmentForRuntimeImport_def intro!: ext)

lemma extends_writeErrorHandler [ext]:
  "extends g g1 \<Longrightarrow> extends g (writeErrorHandler l g1)"
  by (auto simp: writeErrorHandler_def intro!: ext)

lemma extends_writeExpressionErrorHandler [ext]:
  "extends g g1 \<Longrightarrow> extends g (writeExpressionErrorHandler l e g1)"
  by (auto simp: writeExpressionErrorHandler_def Let_def intro!: ext)

lemma extends_writeTemplBuffer [ext]:
  "extends g g1 \<Longrightarrow> extends g (writeTemplBuffer l g1)"
  by (auto simp: writeTemplBuffer_def intro!: ext)

lemma extends_writeWhitespaceTrailer [ext]:
  "extends g g1 \<Longrightarrow> extends g (writeWhitespaceTrailer X l n g1)"
  by (auto simp: writeWhitespaceTrailer_def Let_def intro!: ext)

lemma extends_writeWhitespace [ext]:
  "extends g g1 \<Longrightarrow> extends g (writeWhitespace X l v g1)"
  by (auto simp: writeWhitespace_def intro!: ext)

lemma extends_writeText [ext]: "extends g g1 \<Longrightarrow> extends g (writeText X l v g1)"
  by (auto simp: writeText_def intro!: ext)

lemma extends_writeDocType [ext]: "extends g g1 \<Longrightarrow> extends g (writeDocType X l v g1)"
  by (auto simp: writeDocType_def intro!: ext)

lemma extends_writeComment [ext]: "extends g g1 \<Longrightarrow> extends g (writeComment X l c g1)"
  by (auto simp: writeComment_def intro!: ext)

lemma extends_writeGoCode [ext]: "extends g g1 \<Longrightarrow> extends g (writeGoCode l e g1)"
  by (auto simp: writeGoCode_def intro!: ext)

lemma extends_writeStringExpression [ext]:
  "extends g g1 \<Longrightarrow> extends g (writeStringExpression l e g1)"
  by (auto simp: writeStringExpression_def createVariableName_eq intro!: ext)

lemma extends_writeChildrenExpression [ext]:
  "extends g g1 \<Longrightarrow> extends g (writeChildrenExpression l g1)"
  by (auto simp: writeChildrenExpression_def intro!: ext)

lemma extends_writeSelfClosingTemplElementExpression [ext]:
  "extends g g1 \<Longrightarrow> extends g (writeSelfClosingTemplElementExpression l e g1)"
  by (auto simp: writeSelfClosingTemplElementExpression_def intro!: ext)

lemma extends_writeCallTemplateExpression [ext]:
  "extends g g1 \<Longrightarrow> extends g (writeCallTemplateExpression l e g1)"
  by (auto simp: writeCallTemplateExpression_def intro!: ext)

lemma extends_writeAttributeCSS [ext]:
  "extends g g1 \<Longrightarrow> extends g (snd (writeAttributeCSS X l k e g1))"
  by (auto simp: writeAttributeCSS_def Let_def createVariableName_eq intro!: ext)

lemma extends_writeAttributesCSS_pair:
  "writeAttributesCSS X l attrs g1 = (attrs', g2) \<Longrightarrow> extends g g1 \<Longrightarrow> extends g g2"
proof (induction X l attrs g1 arbitrary: g attrs' g2 rule: writeAttributesCSS.induct)
  case (2 X l key expression attrs g1)
  obtain res ga where a: "writeAttributeCSS X l key expression g1 = (res, ga)"
    by (cases "writeAttributeCSS X l key expression g1")
  obtain as gb where b: "writeAttributesCSS X l attrs ga = (as, gb)"
    by (cases "writeAttributesCSS X l attrs ga")
  have "extends g ga"
    using extends_writeAttributeCSS [OF "2.prems"(2), of X l key expression] a by simp
  from "2.IH" [OF a [symmetric] b this] "2.prems"(1) a b show ?case by simp
next
  case (3 X l c thn els attrs g1)
  obtain t ga where a: "writeAttributesCSS X l thn g1 = (t, ga)"
    by (cases "writeAttributesCSS X l thn g1")
  obtain e gb where b: "writeAttributesCSS X l els ga = (e, gb)"
    by (cases "writeAttributesCSS X l els ga")
  obtain r gc where c: "writeAttributesCSS X l attrs gb = (r, gc)"
    by (cases "writeAttributesCSS X l attrs gb")
  have "extends g ga" using "3.IH"(1) [OF a "3.prems"(2)] .
  then have "extends g gb" using "3.IH"(2) [OF a [symmetric] b] by simp
  then have "extends g gc" using "3.IH"(3) [OF a [symmetric] b [symmetric] c] by simp
  with "3.prems"(1) a b c show ?case by simp
qed (auto split: prod.splits)

lemma extends_writeAttributesCSS [ext]:
  "extends g g1 \<Longrightarrow> extends g (snd (writeAttributesCSS X l attrs g1))"
  using extends_writeAttributesCSS_pair [of X l attrs g1] by (cases "writeAttributesCSS X l attrs g1") auto

lemma extends_writeElementCSS [ext]:
  "extends g g1 \<Longrightarrow> extends g (snd (writeElementCSS X l attrs g1))"
  by (simp add: writeElementCSS_def extends_writeAttributesCSS)

lemma extends_writeElementScript [ext]:
  "extends g g1 \<Longrightarrow> extends g (writeElementScript X l attrs g1)"
  by (auto simp: writeElementScript_def Let_def intro!: ext)

lemma extends_writeAttributeKey [ext]:
  "extends g g1 \<Longrightarrow> extends g (writeAttributeKey X l k g1)"
  by (auto simp: writeAttributeKey_def createVariableName_eq intro!: ext split: AttributeKey.splits)

lemma extends_writeBoolConstantAttribute [ext]:
  "extends g g1 \<Longrightarrow> extends g (writeBoolConstantAttribute X l k g1)"
  by (auto simp: writeBoolConstantAttribute_def intro!: ext)

lemma extends_writeConstantAttribute [ext]:
  "extends g g1 \<Longrightarrow> extends g (writeConstantAttribute X l k v q g1)"
  by (auto simp: writeConstantAttribute_def Let_def intro!: ext)

lemma extends_writeBoolExpressionAttribute [ext]:
  "extends g g1 \<Longrightarrow> extends g (writeBoolExpressionAttribute X l k e g1)"
  by (auto simp: writeBoolExpressionAttribute_def intro!: ext)

lemma extends_writeExpressionAttributeValueURL [ext]:
  "extends g g1 \<Longrightarrow> extends g (writeExpressionAttributeValueURL l e g1)"
  by (auto simp: writeExpressionAttributeValueURL_def createVariableName_eq intro!: ext)

lemma extends_writeExpressionAttributeValueScript [ext]:
  "extends g g1 \<Longrightarrow> extends g (writeExpressionAttributeValueScript l e g1)"
  by (auto simp: writeExpressionAttributeValueScript_def createVariableName_eq intro!: ext)

lemma extends_writeExpressionAttributeValueDefault [ext]:
  "extends g g1 \<Longrightarrow> extends g (writeExpressionAttributeValueDefault l e g1)"
  by (auto simp: writeExpressionAttributeValueDefault_def createVariableName_eq intro!: ext)

lemma extends_writeExpressionAttributeValueStyle [ext]:
  "extends g g1 \<Longrightarrow> extends g (writeExpressionAttributeValueStyle l e g1)"
  by (auto simp: writeExpressionAttributeValueStyle_def createVariableName_eq intro!: ext)

lemma extends_writeExpressionAttribute [ext]:
  "extends g g1 \<Longrightarrow> extends g (writeExpressionAttribute X l n k e g1)"
  by (auto simp: writeExpressionAttribute_def Let_def intro!: ext)

lemma extends_writeSpreadAttributes [ext]:
  "extends g g1 \<Longrightarrow> extends g (writeSpreadAttributes l e g1)"
  by (auto simp: writeSpreadAttributes_def intro!: ext)

lemma extends_attributes:
  "extends g g1 \<Longrightarrow> extends g (writeElementAttributes X l n attrs g1)"
  "extends g g1 \<Longrightarrow> extends g (writeAttribute X l n attr g1)"
  "extends g g1 \<Longrightarrow> extends g (writeConditionalAttribute X l n c thn els g1)"
proof (induction X l n attrs g1 and X l n attr g1 and X l n c thn els g1 arbitrary: g and g and g
       rule: writeElementAttributes_writeAttribute_writeConditionalAttribute.induct)
  case (9 X indentLevel elementName c thn els g1)
  let ?g1 = "steps [wrIndent indentLevel ''if '', mapped c (gWrite (Value c)),
                    wr '' {\<newline>''] g1"
  let ?g2 = "writeElementAttributes X (indentLevel + 1) elementName thn ?g1"
  have a: "extends g ?g1" using "9.prems" by (auto intro!: ext)
  have b: "extends g ?g2" using "9.IH"(1) [OF refl a] .
  show ?case
  proof (cases "0 < length els")
    case True
    have "extends g (wrIndent indentLevel ''} else {\<newline>'' ?g2)"
      using b by (rule extends_wrIndent)
    from "9.IH"(2) [OF refl refl True this] True show ?thesis
      by (simp add: Let_def extends_wrIndent)
  next
    case False
    with b show ?thesis by (simp add: Let_def extends_wrIndent)
  qed
qed (auto intro!: ext)

lemmas extends_attributes_ext [ext] = extends_attributes

lemma extends_writeElementOpenTag [ext]:
  "extends g g1 \<Longrightarrow> extends g (writeElementOpenTag X l n attrs g1)"
proof (cases "length attrs = 0")
  case True
  then show "extends g g1 \<Longrightarrow> ?thesis" by (auto simp: writeElementOpenTag_def intro!: ext)
next
  case False
  assume e: "extends g g1"
  have "extends g (snd (writeElementCSS X l (CopyAttributes X attrs) g1))"
    using e by (rule extends_writeElementCSS)
  then show ?thesis using False
    by (auto simp: writeElementOpenTag_def split: prod.splits intro!: ext)
qed

lemma extends_writeRawElement [ext]:
  "extends g g1 \<Longrightarrow> extends g (writeRawElement X l n attrs c g1)"
  by (auto simp: writeRawElement_def intro!: ext)

lemma extendsE_writeScriptContents [ext]:
  "extends g g1 \<Longrightarrow> extendsE g (writeScriptContents X l c g1)"
  by (auto simp: writeScriptContents_def Let_def createVariableName_eq intro!: ext
           split: option.splits)

lemma extendsE_writeScriptContentsList [ext]:
  "extends g g1 \<Longrightarrow> extendsE g (writeScriptContentsList X l cs g1)"
  by (induction cs arbitrary: g1) (auto intro!: ext)

lemma extendsE_writeScriptElement [ext]:
  "extends g g1 \<Longrightarrow> extendsE g (writeScriptElement X l attrs cs g1)"
  by (auto simp: writeScriptElement_def intro!: ext)

lemma extendsE_nodes:
  "extends g g1 \<Longrightarrow> extendsE g (writeNodes X l ns nx g1)"
  "extends g g1 \<Longrightarrow> extendsE g (writeNode X l n nx g1)"
  "extends g g1 \<Longrightarrow> extendsE g (writeNodeSwitch X l n nx g1)"
  "extends g g1 \<Longrightarrow> extendsE g (writeElement X l name attrs children g1)"
  "extends g g1 \<Longrightarrow> extendsE g (writeIfExpression X l e thn elseIfs els nx g1)"
  "extends g g1 \<Longrightarrow> extendsE g (writeElseIfs X l elseIfs nx g1)"
  "extends g g1 \<Longrightarrow> extendsE g (writeSwitchExpression X l e cases nx g1)"
  "extends g g1 \<Longrightarrow> extendsE g (writeCases X l cases nx g1)"
  "extends g g1 \<Longrightarrow> extendsE g (writeForExpression X l e children nx g1)"
  "extends g g1 \<Longrightarrow> extendsE g (writeTemplElementExpression X l e children g1)"
  "extends g g1 \<Longrightarrow> extendsE g (writeBlockTemplElementExpression X l e children g1)"
proof (induction X l ns nx g1 and X l n nx g1 and X l n nx g1 and X l name attrs children g1
         and X l e thn elseIfs els nx g1 and X l elseIfs nx g1 and X l e cases nx g1
         and X l cases nx g1 and X l e children nx g1 and X l e children g1
         and X l e children g1
       arbitrary: g and g and g and g and g and g and g and g and g and g and g
       rule: writeNodes_writeNode_writeNodeSwitch_writeElement_writeIfExpression_writeElseIfs_writeSwitchExpression_writeCases_writeForExpression_writeTemplElementExpression_writeBlockTemplElementExpression.induct)
  case (2 X l cur rest nx g1)
  show ?case using "2.prems" by (auto intro!: ext "2.IH" [simplified])
next
  case (3 X l current nx g1)
  show ?case using "3.prems"
    by (subst writeNode.simps) (auto intro!: ext "3.IH" [simplified] split: option.splits)
next
  case (21 X l name attributes children g1)
  show ?case using "21.prems"
    by (subst writeElement.simps) (auto simp: Let_def intro!: ext "21.IH" [simplified])
next
  case (22 X l e thn elseIfs els nx g1)
  show ?case using "22.prems"
    by (subst writeIfExpression.simps) (auto intro!: ext "22.IH" [simplified])
next
  case (24 X l e thn rest nx g1)
  show ?case using "24.prems" by (auto intro!: ext "24.IH" [simplified])
next
  case (25 X l e cases nx g1)
  show ?case using "25.prems"
    by (subst writeSwitchExpression.simps) (auto intro!: ext "25.IH" [simplified])
next
  case (27 X l e children rest nx g1)
  show ?case using "27.prems" by (auto intro!: ext "27.IH" [simplified])
next
  case (28 X l e children nx g1)
  show ?case using "28.prems"
    by (subst writeForExpression.simps) (auto intro!: ext "28.IH" [simplified])
next
  case (29 X l e children g1)
  show ?case using "29.prems"
    by (subst writeTemplElementExpression.simps) (auto intro!: ext "29.IH" [simplified])
next
  case (30 X l e children g1)
  note IH = "30.IH" [OF createVariableName_eq [symmetric], simplified]
  show ?case using "30.prems"
    by (subst writeBlockTemplElementExpression.simps)
       (auto simp: createVariableName_eq intro!: ext IH)
qed (auto intro!: ext)

section \<open>Whitespace and trailing space\<close>

lemma isInlineOrText_None: "\<not> isInlineOrText X None"
  by (simp add: isInlineOrText_def)

lemma isInlineOrText_Some:
  "isInlineOrText X (Some m) \<longleftrightarrow>
     (\<exists>e thn elseIfs els. m = IfExpression e thn elseIfs els)
     \<or> (\<exists>e cases. m = SwitchExpression e cases)
     \<or> (\<exists>e children. m = ForExpression e children)
     \<or> (\<exists>v. m = Text v)
     \<or> (\<exists>e. m = StringExpression e)
     \<or> (\<exists>name attrs children. m = Element name attrs children \<and> \<not> IsBlockElement X m)"
  by (cases m) (simp_all add: isInlineOrText_def)

lemma writeWhitespaceTrailer_eq:
  "writeWhitespaceTrailer X l ws g = (if ws = SpaceNone then g else wrLiteral X l '' '' g)"
  by (cases ws) (simp_all add: writeWhitespaceTrailer_def trailingSpaceString_def Let_def)



text \<open>
  C5 (amended). The literal emitted for a \<^verbatim>\<open>Whitespace\<close> node is the single space (none
  when the node's value is empty), and so is the literal \<^verbatim>\<open>writeWhitespaceTrailer\<close> emits
  for a trailing-space marker (none for \<^verbatim>\<open>SpaceNone\<close>); a vertical marker is emitted as
  the horizontal one. Nothing else is appended to the literals.
\<close>

theorem whitespace_literals_single_space:
  "Literals (w (writeWhitespace X l v g)) = Literals (w g) @ (if v = [] then [] else ['' ''])
   \<and> writeNodeSwitch X l (Whitespace v) next g = Inr (writeWhitespace X l v g)
   \<and> Literals (w (writeWhitespaceTrailer X l ws g))
       = Literals (w g) @ (if ws = SpaceNone then [] else ['' ''])
   \<and> writeWhitespaceTrailer X l SpaceVertical g = writeWhitespaceTrailer X l SpaceHorizontal g"
  by (simp add: writeWhitespace_def writeWhitespaceTrailer_eq)

text \<open>
  The trailing space of Go code inside a script element is not normalized:
  \<^verbatim>\<open>writeScriptContents\<close> writes \<^verbatim>\<open>string(c.GoCode.TrailingSpace)\<close> through \<^verbatim>\<open>writeText\<close>,
  so a vertical trailing space is emitted as the literal \<^verbatim>\<open>\n\<close>.
\<close>

section \<open>Quoting\<close>

lemma escapeQuotes_eq: "escapeQuotes X s = quoteBody X s"
  by (simp add: escapeQuotes_def Quote_def Let_def)

lemma DecodeRuneInString_ascii:
  "of_char c < (0x80 :: nat) \<Longrightarrow> DecodeRuneInString (c # cs) = (of_char c, 1)"
  by (simp add: DecodeRuneInString_def byteAt_def Let_def)

lemma quoteBody_ascii:
  assumes "of_char c < (0x80 :: nat)"
  shows "quoteBody X (c # cs) = appendEscapedRune X (of_char c) [c] @ quoteBody X cs"
  using assms by (simp add: DecodeRuneInString_ascii RuneError_def)

lemma appendEscapedRune_printable:
  assumes "printableASCII c"
  shows "appendEscapedRune X (of_char c) [c] =
           (if c = dquote \<or> c = backslash then [backslash, c] else [c])"
proof -
  have q: "(of_char c = (of_char dquote :: nat)) = (c = dquote)"
    and b: "(of_char c = (of_char backslash :: nat)) = (c = backslash)"
    by (rule of_char_eq_iff)+
  show ?thesis using assms
    unfolding appendEscapedRune_def q b printableASCII_def by auto
qed

lemma quoteBody_printable:
  "\<forall>c\<in>set s. printableASCII c \<Longrightarrow>
     quoteBody X s =
       concat (map (\<lambda>c. if c = dquote \<or> c = backslash then [backslash, c] else [c]) s)"
proof (induction s)
  case Nil
  show ?case by simp
next
  case (Cons c s)
  then have p: "printableASCII c" and rest: "\<forall>c\<in>set s. printableASCII c" by simp_all
  from p have "of_char c < (0x80 :: nat)" by (simp add: printableASCII_def)
  from quoteBody_ascii [OF this, of X s] appendEscapedRune_printable [OF p, of X] Cons.IH [OF rest]
  show ?case by simp
qed

lemma escapeQuotes_newline: "escapeQuotes X [newline] = [backslash, CHR ''n'']"
proof -
  have "of_char newline < (0x80 :: nat)" by (simp add: newline_def)
  from quoteBody_ascii [OF this, of X "[]"] show ?thesis
    by (simp add: escapeQuotes_eq appendEscapedRune_def newline_def dquote_def backslash_def)
qed

lemma Literals_writeErrorHandler [simp]:
  "Literals (w (writeErrorHandler l g)) = Literals (w g)"
  by (simp add: writeErrorHandler_def)

lemma Literals_writeExpressionErrorHandler [simp]:
  "Literals (w (writeExpressionErrorHandler l e g)) = Literals (w g)"
  by (simp add: writeExpressionErrorHandler_def Let_def)

theorem script_trailing_space_counterexample:
  "emittedLiterals
     (writeScriptContents exampleExterns 0 scriptGoCodeVertical (newGenerator emptyFile))
   = Inr [[backslash, CHR ''n'']]"
  by (simp add: emittedLiterals_def writeScriptContents_def scriptGoCodeVertical_def
        createVariableName_eq trailingSpaceString_def writeText_def escapeQuotes_newline
        newGenerator_def NewRangeWriter_def Let_def)

section \<open>String expressions and Go code with blank text\<close>


lemma TrimSpace_two_spaces: "TrimSpace ''  '' = []"
  by (simp add: TrimSpace_def TrimLeftSpace_def TrimRightSpace_def spaceWidth_def spaceRunes_def)


section \<open>Expression attributes\<close>

lemma htmlEscapeString_plain:
  "set t \<inter> {CHR ''&'', squote, CHR ''<'', CHR ''>'', dquote} = {} \<Longrightarrow> htmlEscapeString t = t"
  by (induction t) auto

lemma htmlEscapeString_no_amp:
  "CHR ''&'' \<notin> set (htmlEscapeString s) \<Longrightarrow> htmlEscapeString s = s"
  by (induction s) (auto split: if_splits)

lemma htmlEscapeString_eq_plain:
  assumes "set t \<inter> {CHR ''&'', squote, CHR ''<'', CHR ''>'', dquote} = {}"
  shows "htmlEscapeString s = t \<longleftrightarrow> s = t"
proof
  assume e: "htmlEscapeString s = t"
  with assms have "CHR ''&'' \<notin> set (htmlEscapeString s)" by auto
  then have "htmlEscapeString s = s" by (rule htmlEscapeString_no_amp)
  with e show "s = t" by simp
next
  assume "s = t"
  with htmlEscapeString_plain [OF assms] show "htmlEscapeString s = t" by simp
qed

lemma htmlEscapeString_prefix_plain:
  "set p \<inter> {CHR ''&'', squote, CHR ''<'', CHR ''>'', dquote} = {} \<Longrightarrow>
     prefix p (htmlEscapeString s) \<longleftrightarrow> prefix p s"
proof (induction p arbitrary: s)
  case Nil
  show ?case by simp
next
  case (Cons c p)
  then have IH: "\<And>s. prefix p (htmlEscapeString s) \<longleftrightarrow> prefix p s" by simp
  from Cons.prems have c: "c \<noteq> CHR ''&''" "c \<noteq> squote" "c \<noteq> CHR ''<''" "c \<noteq> CHR ''>''"
    "c \<noteq> dquote" by auto
  show ?case
  proof (cases s)
    case Nil
    then show ?thesis by simp
  next
    case (Cons d s')
    with c IH [of s'] show ?thesis by auto
  qed
qed

lemma escaped_key_tests:
  "htmlEscapeString k = ''href'' \<longleftrightarrow> k = ''href''"
  "htmlEscapeString k = ''action'' \<longleftrightarrow> k = ''action''"
  "htmlEscapeString k = ''data'' \<longleftrightarrow> k = ''data''"
  "htmlEscapeString k = ''style'' \<longleftrightarrow> k = ''style''"
  "prefix ''on'' (htmlEscapeString k) \<longleftrightarrow> prefix ''on'' k"
  "prefix ''hx-on:'' (htmlEscapeString k) \<longleftrightarrow> prefix ''hx-on:'' k"
  by (rule htmlEscapeString_eq_plain htmlEscapeString_prefix_plain;
      simp add: squote_def dquote_def)+

lemma url_table:
  "isExpressionAttributeValueURL elementName (htmlEscapeString k) \<longleftrightarrow>
     (elementName, k) \<in> {(''a'', ''href''), (''link'', ''href''), (''form'', ''action''),
                  (''object'', ''data'')}"
  unfolding isExpressionAttributeValueURL_def escaped_key_tests by auto

lemma script_test:
  "isScriptAttribute (htmlEscapeString k) \<longleftrightarrow> prefix ''on'' k \<or> prefix ''hx-on:'' k"
  unfolding isScriptAttribute_def escaped_key_tests by (rule refl)


section \<open>Elements: literals of the opening tag\<close>

text \<open>
  \<open>appends P g g'\<close>: the literals of \<open>g'\<close> are those of \<open>g\<close> followed by literals that all
  satisfy \<open>P\<close>. \<open>attributeLiteral\<close> holds of the literals the attributes of an element emit:
  each begins with a space, an equals sign or a backslash.
\<close>

definition appends :: "(string \<Rightarrow> bool) \<Rightarrow> generator \<Rightarrow> generator \<Rightarrow> bool" where
  "appends P g g' \<longleftrightarrow> (\<exists>ls. Literals (w g') = Literals (w g) @ ls \<and> list_all P ls)"

definition attributeLiteral :: "string \<Rightarrow> bool" where
  "attributeLiteral s \<longleftrightarrow> (\<exists>c cs. s = c # cs \<and> (c = CHR '' '' \<or> c = CHR ''='' \<or> c = backslash))"

named_theorems app \<open>rules that carry appends over a state change\<close>

lemma appends_refl [simp, app]: "appends P g g"
  by (simp add: appends_def)

lemma appends_same: "Literals (w g') = Literals (w g1) \<Longrightarrow> appends P g g1 \<Longrightarrow> appends P g g'"
  by (simp add: appends_def)

lemma appends_wr [app]: "appends P g g1 \<Longrightarrow> appends P g (wr s g1)"
  by (rule appends_same) simp_all

lemma appends_wrIndent [app]: "appends P g g1 \<Longrightarrow> appends P g (wrIndent l s g1)"
  by (rule appends_same) simp_all

lemma appends_mapped_gWrite [app]: "appends P g g1 \<Longrightarrow> appends P g (mapped e (gWrite s) g1)"
  by (rule appends_same) simp_all

lemma appends_variableID [app]:
  "appends P g g1 \<Longrightarrow> appends P g (g1\<lparr>variableID := variableID g1 + 1\<rparr>)"
  by (rule appends_same) simp_all

lemma appends_wrLiteral [app]:
  "P s \<Longrightarrow> appends P g g1 \<Longrightarrow> appends P g (wrLiteral X l s g1)"
  by (auto simp: appends_def)

lemma appends_writeErrorHandler [app]:
  "appends P g g1 \<Longrightarrow> appends P g (writeErrorHandler l g1)"
  by (rule appends_same) simp_all

lemma appends_writeExpressionErrorHandler [app]:
  "appends P g g1 \<Longrightarrow> appends P g (writeExpressionErrorHandler l e g1)"
  by (rule appends_same) simp_all

lemma Literals_writeAttributeCSS [simp]:
  "Literals (w (snd (writeAttributeCSS X l k e g))) = Literals (w g)"
  by (simp add: writeAttributeCSS_def Let_def createVariableName_eq)

lemma Literals_writeAttributesCSS_pair:
  "writeAttributesCSS X l attrs g = (attrs', g') \<Longrightarrow> Literals (w g') = Literals (w g)"
proof (induction X l attrs g arbitrary: attrs' g' rule: writeAttributesCSS.induct)
  case (2 X l key expression attrs g)
  obtain res ga where a: "writeAttributeCSS X l key expression g = (res, ga)"
    by (cases "writeAttributeCSS X l key expression g")
  obtain as gb where b: "writeAttributesCSS X l attrs ga = (as, gb)"
    by (cases "writeAttributesCSS X l attrs ga")
  have "Literals (w ga) = Literals (w g)"
    using Literals_writeAttributeCSS [of X l key expression g] a by simp
  with "2.IH" [OF a [symmetric] b] "2.prems" a b show ?case by simp
next
  case (3 X l c thn els attrs g)
  obtain t ga where a: "writeAttributesCSS X l thn g = (t, ga)"
    by (cases "writeAttributesCSS X l thn g")
  obtain e gb where b: "writeAttributesCSS X l els ga = (e, gb)"
    by (cases "writeAttributesCSS X l els ga")
  obtain r gc where c: "writeAttributesCSS X l attrs gb = (r, gc)"
    by (cases "writeAttributesCSS X l attrs gb")
  from "3.IH"(1) [OF a] "3.IH"(2) [OF a [symmetric] b]
    "3.IH"(3) [OF a [symmetric] b [symmetric] c] "3.prems" a b c
  show ?case by simp
qed (auto split: prod.splits)

lemma Literals_writeElementCSS [simp]:
  "Literals (w (snd (writeElementCSS X l attrs g))) = Literals (w g)"
  using Literals_writeAttributesCSS_pair [of X l attrs g]
  by (cases "writeAttributesCSS X l attrs g") (simp add: writeElementCSS_def)

lemma Literals_writeElementScript [simp]:
  "Literals (w (writeElementScript X l attrs g)) = Literals (w g)"
  by (simp add: writeElementScript_def Let_def)

lemma appends_writeElementScript [app]:
  "appends P g g1 \<Longrightarrow> appends P g (writeElementScript X l attrs g1)"
  by (rule appends_same) simp_all

lemma attributeLiteral_simps [simp]:
  "attributeLiteral (CHR '' '' # s)"
  "attributeLiteral (CHR ''='' # s)"
  "attributeLiteral (backslash # s)"
  by (simp_all add: attributeLiteral_def)

lemma escapeQuotes_equals: "escapeQuotes X (CHR ''='' # s) = CHR ''='' # escapeQuotes X s"
proof -
  have "of_char (CHR ''='') < (0x80 :: nat)" by simp
  from quoteBody_ascii [OF this, of X s] show ?thesis
    by (simp add: escapeQuotes_eq appendEscapedRune_def dquote_def backslash_def)
qed

lemma appends_writeAttributeKey [app]:
  "appends attributeLiteral g g1 \<Longrightarrow> appends attributeLiteral g (writeAttributeKey X l k g1)"
  by (auto simp: writeAttributeKey_def createVariableName_eq intro!: app
           split: AttributeKey.splits)

lemma appends_writeConstantAttribute [app]:
  "appends attributeLiteral g g1 \<Longrightarrow>
     appends attributeLiteral g (writeConstantAttribute X l k v q g1)"
  by (auto simp: writeConstantAttribute_def Let_def escapeQuotes_equals intro!: app)

lemma appends_writeBoolExpressionAttribute [app]:
  "appends attributeLiteral g g1 \<Longrightarrow>
     appends attributeLiteral g (writeBoolExpressionAttribute X l k e g1)"
  by (auto simp: writeBoolExpressionAttribute_def intro!: app)

lemma appends_value_writers [app]:
  "appends P g g1 \<Longrightarrow> appends P g (writeExpressionAttributeValueURL l e g1)"
  "appends P g g1 \<Longrightarrow> appends P g (writeExpressionAttributeValueScript l e g1)"
  "appends P g g1 \<Longrightarrow> appends P g (writeExpressionAttributeValueStyle l e g1)"
  "appends P g g1 \<Longrightarrow> appends P g (writeExpressionAttributeValueDefault l e g1)"
  "appends P g g1 \<Longrightarrow> appends P g (writeSpreadAttributes l e g1)"
  by (auto simp: writeExpressionAttributeValueURL_def writeExpressionAttributeValueScript_def
        writeExpressionAttributeValueStyle_def writeExpressionAttributeValueDefault_def
        writeSpreadAttributes_def createVariableName_eq intro!: app)

lemma appends_writeExpressionAttribute [app]:
  "appends attributeLiteral g g1 \<Longrightarrow>
     appends attributeLiteral g (writeExpressionAttribute X l n k e g1)"
  by (auto simp: writeExpressionAttribute_def Let_def intro!: app)

lemma appends_attributes:
  "appends attributeLiteral g g1 \<Longrightarrow>
     appends attributeLiteral g (writeElementAttributes X l n attrs g1)"
  "appends attributeLiteral g g1 \<Longrightarrow> appends attributeLiteral g (writeAttribute X l n attr g1)"
  "appends attributeLiteral g g1 \<Longrightarrow>
     appends attributeLiteral g (writeConditionalAttribute X l n c thn els g1)"
proof (induction X l n attrs g1 and X l n attr g1 and X l n c thn els g1 arbitrary: g and g and g
       rule: writeElementAttributes_writeAttribute_writeConditionalAttribute.induct)
  case (9 X indentLevel elementName c thn els g1)
  let ?g1 = "steps [wrIndent indentLevel ''if '', mapped c (gWrite (Value c)),
                    wr '' {\<newline>''] g1"
  let ?g2 = "writeElementAttributes X (indentLevel + 1) elementName thn ?g1"
  have a: "appends attributeLiteral g ?g1" using "9.prems" by (auto intro!: app)
  have b: "appends attributeLiteral g ?g2" using "9.IH"(1) [OF refl a] .
  show ?case
  proof (cases "0 < length els")
    case True
    have "appends attributeLiteral g (wrIndent indentLevel ''} else {\<newline>'' ?g2)"
      using b by (rule appends_wrIndent)
    from "9.IH"(2) [OF refl refl True this] True show ?thesis
      by (simp add: Let_def appends_wrIndent)
  next
    case False
    with b show ?thesis by (simp add: Let_def appends_wrIndent)
  qed
qed (auto simp: writeBoolConstantAttribute_def intro!: app)

lemma closing_tag_not_attributeLiteral: "\<not> attributeLiteral (''</'' @ s)"
  by (simp add: attributeLiteral_def backslash_def)

lemma writeElementOpenTag_literals:
  "\<exists>ls. Literals (w (writeElementOpenTag X l name attrs g)) = Literals (w g) @ ls
        \<and> last ls = (if attrs = [] then ''<'' @ htmlEscapeString name @ ''>'' else ''>'')
        \<and> ''</'' @ htmlEscapeString name @ ''>'' \<notin> set ls"
proof (cases "attrs = []")
  case True
  then show ?thesis by (simp add: writeElementOpenTag_def)
next
  case False
  obtain attrs' g0 where css: "writeElementCSS X l (CopyAttributes X attrs) g = (attrs', g0)"
    by (cases "writeElementCSS X l (CopyAttributes X attrs) g")
  then have g0: "Literals (w g0) = Literals (w g)"
    using Literals_writeElementCSS [of X l "CopyAttributes X attrs" g] by simp
  let ?g1 = "wrLiteral X l (''<'' @ htmlEscapeString name) (writeElementScript X l attrs' g0)"
  have "appends attributeLiteral ?g1 (writeElementAttributes X l name attrs' ?g1)"
    by (rule appends_attributes) simp
  then obtain ls where ls: "Literals (w (writeElementAttributes X l name attrs' ?g1))
        = Literals (w ?g1) @ ls" and all: "list_all attributeLiteral ls"
    by (auto simp: appends_def)
  have open_tag: "Literals (w (writeElementOpenTag X l name attrs g))
      = Literals (w g) @ ((''<'' @ htmlEscapeString name) # ls @ [''>''])"
    using False css ls g0 by (simp add: writeElementOpenTag_def)
  have "''</'' @ htmlEscapeString name @ ''>'' \<notin> set ls"
    using all closing_tag_not_attributeLiteral [of "htmlEscapeString name @ ''>''"]
    by (auto simp: list_all_iff)
  with open_tag False show ?thesis by simp
qed

text \<open>
  C6. For a void element with an empty child list, \<^verbatim>\<open>writeElement\<close> emits the opening tag
  and stops: the last literal is the one that closes the opening tag (\<^verbatim>\<open><name>\<close> without
  attributes, \<^verbatim>\<open>>\<close> with) and the closing tag \<^verbatim>\<open></name>\<close> is not among the literals
  emitted. For an element with a non-empty child list, void or not, it emits the opening
  tag, the children with the white-space nodes removed, and the closing tag.
\<close>

theorem writeElement_void:
  "(IsVoidElement X (Element name attrs []) \<longrightarrow>
      writeElement X l name attrs [] g = Inr (writeElementOpenTag X l name attrs g))
   \<and> (\<exists>ls. Literals (w (writeElementOpenTag X l name attrs g)) = Literals (w g) @ ls
          \<and> last ls = (if attrs = [] then ''<'' @ htmlEscapeString name @ ''>'' else ''>'')
          \<and> ''</'' @ htmlEscapeString name @ ''>'' \<notin> set ls)
   \<and> (children \<noteq> [] \<longrightarrow>
        writeElement X l name attrs children g =
          bindE (writeNodes X l (stripWhitespace children) None
                   (writeElementOpenTag X l name attrs g))
            (\<lambda>g2. Inr (wrLiteral X l (''</'' @ htmlEscapeString name @ ''>'') g2)))"
  using writeElementOpenTag_literals [of X l name attrs g]
  by (simp add: writeElement.simps Let_def)

theorem writeElement_void_witness:
  "writeElement exampleExterns 0 ''br'' [] [] (newGenerator emptyFile) =
     Inr (writeElementOpenTag exampleExterns 0 ''br'' [] (newGenerator emptyFile))
   \<and> writeElement exampleExterns 0 ''br'' [] [Text ''x''] (newGenerator emptyFile) =
     bindE (writeNodes exampleExterns 0 (stripWhitespace [Text ''x'']) None
              (writeElementOpenTag exampleExterns 0 ''br'' [] (newGenerator emptyFile)))
       (\<lambda>g2. Inr (wrLiteral exampleExterns 0 (''</'' @ htmlEscapeString ''br'' @ ''>'') g2))"
proof -
  have v: "IsVoidElement exampleExterns (Element ''br'' [] [])"
    by (simp add: exampleExterns_def)
  have c: "[Text ''x''] \<noteq> []" by simp
  from writeElement_void [of exampleExterns "''br''" "[]" 0 "newGenerator emptyFile" "[Text ''x'']"]
    v c
  show ?thesis by blast
qed

section \<open>Raw elements\<close>




section \<open>Change detection: proofs\<close>

lemma expressionsLoop_eq:
  "length ps + i = length upd \<Longrightarrow>
     expressionsLoop i ps upd = Inr (\<exists>j<length ps. ps ! j \<noteq> upd ! (i + j))"
proof (induction ps arbitrary: i)
  case Nil
  then show ?case by simp
next
  case (Cons p ps)
  from Cons.prems have lt: "i < length upd" and rest: "length ps + Suc i = length upd"
    by simp_all
  have split: "(\<exists>j<Suc (length ps). (p # ps) ! j \<noteq> upd ! (i + j))
      \<longleftrightarrow> (p \<noteq> upd ! i \<or> (\<exists>j<length ps. ps ! j \<noteq> upd ! (Suc i + j)))"
  proof
    assume "\<exists>j<Suc (length ps). (p # ps) ! j \<noteq> upd ! (i + j)"
    then obtain j where j: "j < Suc (length ps)" "(p # ps) ! j \<noteq> upd ! (i + j)" by blast
    show "p \<noteq> upd ! i \<or> (\<exists>j<length ps. ps ! j \<noteq> upd ! (Suc i + j))"
    proof (cases j)
      case 0
      with j show ?thesis by simp
    next
      case (Suc k)
      with j have "k < length ps" "ps ! k \<noteq> upd ! (Suc i + k)" by simp_all
      then show ?thesis by blast
    qed
  next
    assume "p \<noteq> upd ! i \<or> (\<exists>j<length ps. ps ! j \<noteq> upd ! (Suc i + j))"
    then show "\<exists>j<Suc (length ps). (p # ps) ! j \<noteq> upd ! (i + j)"
    proof
      assume "p \<noteq> upd ! i"
      then have "0 < Suc (length ps) \<and> (p # ps) ! 0 \<noteq> upd ! (i + 0)" by simp
      then show ?thesis by blast
    next
      assume "\<exists>j<length ps. ps ! j \<noteq> upd ! (Suc i + j)"
      then obtain k where "k < length ps" "ps ! k \<noteq> upd ! (Suc i + k)" by blast
      then have "Suc k < Suc (length ps) \<and> (p # ps) ! Suc k \<noteq> upd ! (i + Suc k)" by simp
      then show ?thesis by blast
    qed
  qed
  show ?case using lt Cons.IH [OF rest] split by simp
qed

lemma HasGoChanged_nonnil:
  assumes "SourceMap previous = Some pm" and "SourceMap updated = Some um"
  shows "HasGoChanged previous updated =
     Inr (Version (Options previous) \<noteq> Version (Options updated)
        \<or> FileName (Options previous) \<noteq> FileName (Options updated)
        \<or> SkipCodeGeneratedComment (Options previous)
             \<noteq> SkipCodeGeneratedComment (Options updated)
        \<or> length (GeneratorOutput.Literals previous) \<noteq> length (GeneratorOutput.Literals updated)
        \<or> length (Expressions pm) \<noteq> length (Expressions um)
        \<or> (\<exists>i<length (Expressions pm). Expressions pm ! i \<noteq> Expressions um ! i))"
proof (cases "length (Expressions pm) = length (Expressions um)")
  case True
  then have "expressionsLoop 0 (Expressions pm) (Expressions um) =
      Inr (\<exists>j<length (Expressions pm). Expressions pm ! j \<noteq> Expressions um ! (0 + j))"
    by (intro expressionsLoop_eq) simp
  with True assms show ?thesis by (simp add: HasGoChanged_def)
next
  case False
  with assms show ?thesis by (simp add: HasGoChanged_def)
qed

text \<open>
  C1 (amended). For every pair of GeneratorOutput values whose \<^verbatim>\<open>SourceMap\<close> pointers
  are not nil, \<^verbatim>\<open>HasGoChanged(previous, updated)\<close> returns true if and only if
  \<^verbatim>\<open>Options.Version\<close>, \<^verbatim>\<open>Options.FileName\<close>, \<^verbatim>\<open>Options.SkipCodeGeneratedComment\<close>,
  the number of literals, the number of source-map expressions, or the expressions at
  some index differ. In particular an output compared with itself is unchanged, and so
  is an output compared with a copy that differs only in \<^verbatim>\<open>Options.GeneratedDate\<close>.
\<close>

theorem HasGoChanged_iff:
  assumes "SourceMap previous = Some pm" and "SourceMap updated = Some um"
  shows "HasGoChanged previous updated =
     Inr (Version (Options previous) \<noteq> Version (Options updated)
        \<or> FileName (Options previous) \<noteq> FileName (Options updated)
        \<or> SkipCodeGeneratedComment (Options previous)
             \<noteq> SkipCodeGeneratedComment (Options updated)
        \<or> length (GeneratorOutput.Literals previous) \<noteq> length (GeneratorOutput.Literals updated)
        \<or> length (Expressions pm) \<noteq> length (Expressions um)
        \<or> (\<exists>i<length (Expressions pm). Expressions pm ! i \<noteq> Expressions um ! i))
   \<and> HasGoChanged previous previous = Inr False
   \<and> HasGoChanged previous
        (previous\<lparr>Options := (Options previous)\<lparr>GeneratedDate := d\<rparr>\<rparr>) = Inr False"
proof -
  let ?dated = "previous\<lparr>Options := (Options previous)\<lparr>GeneratedDate := d\<rparr>\<rparr>"
  have same: "HasGoChanged previous previous = Inr False"
    using HasGoChanged_nonnil [OF assms(1) assms(1)] by simp
  have "SourceMap ?dated = Some pm" using assms(1) by simp
  from HasGoChanged_nonnil [OF assms(1) this]
  have dated: "HasGoChanged previous ?dated = Inr False" by simp
  from HasGoChanged_nonnil [OF assms] same dated show ?thesis by blast
qed

theorem HasGoChanged_iff_witness:
  "HasGoChanged outputA outputB = Inr True
   \<and> HasGoChanged outputA outputA = Inr False
   \<and> HasGoChanged outputA
        (outputA\<lparr>Options := (Options outputA)\<lparr>GeneratedDate := ''2025-06-01T12:00:00Z''\<rparr>\<rparr>)
       = Inr False"
proof -
  have a: "SourceMap outputA = Some \<lparr>Expressions = [1, 2, 3], SymbolRanges = []\<rparr>"
    by (simp add: outputA_def)
  have b: "SourceMap outputB = Some \<lparr>Expressions = [1, 2, 4], SymbolRanges = []\<rparr>"
    by (simp add: outputB_def)
  have "\<exists>i<length [1, 2, 3 :: nat]. [1, 2, 3 :: nat] ! i \<noteq> [1, 2, 4] ! i"
    by (rule exI [of _ 2]) simp
  with HasGoChanged_iff [OF a b, of "''2025-06-01T12:00:00Z''"] show ?thesis
    by simp
qed

text \<open>
  With both \<^verbatim>\<open>SourceMap\<close> pointers nil and everything else equal, the call dereferences
  nil at \<^verbatim>\<open>previous.SourceMap.Expressions\<close>: it panics and returns neither true nor false.
\<close>

theorem HasGoChanged_nil_counterexample:
  "HasGoChanged nilOutput nilOutput = Inl NilPointerDereference"
  by (simp add: HasGoChanged_def nilOutput_def)

section \<open>The template-element parser: proofs\<close>



end
